theory Spec2Isabelle
  imports
    Complex_Main
    "HOL-Library.AList"
    "HOL-Library.Char_ord"
    "HOL-Library.List_Lexorder"
    "HOL-Library.Option_ord"
    "HOL-Library.Product_Lexorder"
begin

section \<open>Strings\<close>

text \<open>
  Python strings are modelled as \<open>string\<close>, each \<open>char\<close> read as the code point below 256
  with that number. \<open>str.strip()\<close> removes leading and trailing white space; the code points
  below 256 that Python counts as white space are the ones listed in \<open>isspace\<close>.
\<close>

definition isspace :: "char \<Rightarrow> bool" where
  "isspace c \<longleftrightarrow>
     c \<in> set [CHR 0x20, CHR 0x09, CHR 0x0A, CHR 0x0B, CHR 0x0C, CHR 0x0D,
              CHR 0x1C, CHR 0x1D, CHR 0x1E, CHR 0x1F, CHR 0x85, CHR 0xA0]"

definition str_strip :: "string \<Rightarrow> string" where
  "str_strip s = rev (dropWhile isspace (rev (dropWhile isspace s)))"

text \<open>
  \<open>str.lower()\<close> on the code points below 256: the letters \<open>A\<close> to \<open>Z\<close> and the letters
  from 0xC0 to 0xDE (the multiplication sign 0xD7 is no letter) move up by 0x20, and every
  other code point stays.
\<close>

definition lower_char :: "char \<Rightarrow> char" where
  "lower_char c =
     (let n = (of_char c :: int)
      in if (0x41 \<le> n \<and> n \<le> 0x5A) \<or> (0xC0 \<le> n \<and> n \<le> 0xDE \<and> n \<noteq> 0xD7)
         then char_of (n + 0x20) else c)"

definition str_lower :: "string \<Rightarrow> string" where
  "str_lower s = map lower_char s"

text \<open>
  \<open>str.upper()\<close> on the code points below 256. The letters \<open>a\<close> to \<open>z\<close> and the letters
  from 0xE0 to 0xFE (the division sign 0xF7 is no letter) move down by 0x20; the micro sign
  0xB5 becomes the Greek capital mu 0x39C, the sharp s 0xDF becomes the two letters \<open>SS\<close>,
  and the y with diaeresis 0xFF becomes 0x178; every other code point stays. The result
  can leave the code points below 256, so it is the list of the code points of the text.
\<close>

definition upper_char :: "char \<Rightarrow> int list" where
  "upper_char c =
     (let n = (of_char c :: int)
      in if (0x61 \<le> n \<and> n \<le> 0x7A) \<or> (0xE0 \<le> n \<and> n \<le> 0xFE \<and> n \<noteq> 0xF7)
         then [n - 0x20]
         else if n = 0xB5 then [0x39C]
         else if n = 0xDF then [0x53, 0x53]
         else if n = 0xFF then [0x178]
         else [n])"

definition str_upper :: "string \<Rightarrow> int list" where
  "str_upper s = concat (map upper_char s)"

text \<open>\<open>s.split(c)\<close> for a one-character separator.\<close>

fun split_on :: "char \<Rightarrow> string \<Rightarrow> string list" where
  "split_on c [] = [[]]"
| "split_on c (x # xs) =
     (if x = c then [] # split_on c xs
      else (case split_on c xs of
              w # ws \<Rightarrow> (x # w) # ws
            | [] \<Rightarrow> [[x]]))"

section \<open>Calendar dates\<close>

text \<open>
  A \<open>datetime\<close> produced from a day, a month and a year (time of day zero) is the triple
  (year, month, day); Python compares such values in this lexicographic order.
\<close>

type_synonym date = "int \<times> int \<times> int"

definition is_leap :: "int \<Rightarrow> bool" where
  "is_leap y \<longleftrightarrow> y mod 4 = 0 \<and> (y mod 100 \<noteq> 0 \<or> y mod 400 = 0)"

definition days_in_month :: "int \<Rightarrow> int \<Rightarrow> int" where
  "days_in_month y m =
     (if m = 2 then (if is_leap y then 29 else 28)
      else if m \<in> set [4, 6, 9, 11] then 30 else 31)"

definition digit_val :: "char \<Rightarrow> int option" where
  "digit_val c = map_of (zip ''0123456789'' [0, 1, 2, 3, 4, 5, 6, 7, 8, 9]) c"

text \<open>
  The directive \<open>%d\<close> of \<open>strptime\<close> matches \<open>3[0-1]|[1-2]\d|0[1-9]|[1-9]| [1-9]\<close>, and the
  separator must follow at once.
\<close>

fun parse_day :: "string \<Rightarrow> int option" where
  "parse_day [a] =
     (case digit_val a of Some x \<Rightarrow> (if 1 \<le> x then Some x else None) | None \<Rightarrow> None)"
| "parse_day [a, b] =
     (case digit_val b of
        None \<Rightarrow> None
      | Some y \<Rightarrow>
          (case digit_val a of
             Some x \<Rightarrow> (if 1 \<le> 10 * x + y \<and> 10 * x + y \<le> 31 then Some (10 * x + y) else None)
           | None \<Rightarrow> (if a = CHR '' '' \<and> 1 \<le> y then Some y else None)))"
| "parse_day _ = None"

text \<open>\<open>%b\<close>: the abbreviated month name of the C locale, matched without regard to case.\<close>

definition month_names :: "string list" where
  "month_names = [''jan'', ''feb'', ''mar'', ''apr'', ''may'', ''jun'',
                  ''jul'', ''aug'', ''sep'', ''oct'', ''nov'', ''dec'']"

definition parse_month :: "string \<Rightarrow> int option" where
  "parse_month s = map_of (zip month_names [1, 2, 3, 4, 5, 6, 7, 8, 9, 10, 11, 12]) (str_lower s)"

text \<open>\<open>%y\<close>: exactly two digits; 69 to 99 are 1969 to 1999, 00 to 68 are 2000 to 2068.\<close>

fun parse_year2 :: "string \<Rightarrow> int option" where
  "parse_year2 [a, b] =
     (case (digit_val a, digit_val b) of
        (Some x, Some y) \<Rightarrow>
          (if 10 * x + y \<le> 68 then Some (2000 + (10 * x + y)) else Some (1900 + (10 * x + y)))
      | _ \<Rightarrow> None)"
| "parse_year2 _ = None"

text \<open>
  \<open>datetime.strptime(s, '%d/%b/%y')\<close>: \<open>None\<close> is the \<open>ValueError\<close> of a string that does not
  match the format, or that names a day the month does not have.
\<close>

definition strptime_dby :: "string \<Rightarrow> date option" where
  "strptime_dby s =
     (case split_on CHR ''/'' s of
        [ds, ms, ys] \<Rightarrow>
          (case (parse_day ds, parse_month ms, parse_year2 ys) of
             (Some d, Some m, Some y) \<Rightarrow>
               (if d \<le> days_in_month y m then Some (y, m, d) else None)
           | _ \<Rightarrow> None)
      | _ \<Rightarrow> None)"

section \<open>Stage quantities\<close>

datatype stage = Cutting | Sewing | Washing | Finishing | Packing

record quantities =
  cutting :: int
  sewing :: int
  washing :: int
  finishing :: int
  packing :: int

fun qty :: "stage \<Rightarrow> quantities \<Rightarrow> int" where
  "qty Cutting q = cutting q"
| "qty Sewing q = sewing q"
| "qty Washing q = washing q"
| "qty Finishing q = finishing q"
| "qty Packing q = packing q"

definition q_zero :: quantities where
  "q_zero = \<lparr>cutting = 0, sewing = 0, washing = 0, finishing = 0, packing = 0\<rparr>"

definition q_add :: "quantities \<Rightarrow> quantities \<Rightarrow> quantities" where
  "q_add a b = \<lparr>cutting = cutting a + cutting b, sewing = sewing a + sewing b,
               washing = washing a + washing b, finishing = finishing a + finishing b,
               packing = packing a + packing b\<rparr>"

definition q_sub :: "quantities \<Rightarrow> quantities \<Rightarrow> quantities" where
  "q_sub a b = \<lparr>cutting = cutting a - cutting b, sewing = sewing a - sewing b,
               washing = washing a - washing b, finishing = finishing a - finishing b,
               packing = packing a - packing b\<rparr>"

definition q_sum :: "quantities list \<Rightarrow> quantities" where
  "q_sum qs = foldr q_add qs q_zero"

section \<open>Daily production rows and the day-wise converter\<close>

text \<open>
  A row of the daily production data: the dictionary with the keys \<open>Style No\<close>, \<open>PO\<close>,
  \<open>Colour\<close>, \<open>Date\<close>, \<open>Order Quantity\<close>, the five \<open>Actual ...\<close> quantities, \<open>Source Sheet\<close>
  and \<open>Source Row\<close>. The converter's output rows have no \<open>Order Quantity\<close> key, which is
  \<open>None\<close> here.
\<close>

record prod_row =
  a_style_no :: string
  a_po :: string
  a_colour :: string
  a_date :: string
  a_order_quantity :: "int option"
  actual :: quantities
  a_source_sheet :: string
  a_source_row :: nat

type_synonym combo_key = "int list \<times> string \<times> string"

definition combo_key_of :: "prod_row \<Rightarrow> combo_key" where
  "combo_key_of row =
     (str_upper (str_strip (a_style_no row)), str_strip (a_po row),
      str_lower (str_strip (a_colour row)))"

text \<open>Step 1: the rows whose date parses, paired with the date, sorted by it (stable).\<close>

definition dated_rows :: "prod_row list \<Rightarrow> (date \<times> prod_row) list" where
  "dated_rows daily_prod_data =
     sort_key fst
       (List.map_filter (\<lambda>row. map_option (\<lambda>date_obj. (date_obj, row)) (strptime_dby (a_date row)))
          daily_prod_data)"

definition any_negative :: "quantities \<Rightarrow> bool" where
  "any_negative q \<longleftrightarrow>
     cutting q < 0 \<or> sewing q < 0 \<or> finishing q < 0 \<or> washing q < 0 \<or> packing q < 0"

definition clamp_negative :: "quantities \<Rightarrow> quantities" where
  "clamp_negative q =
     \<lparr>cutting = max 0 (cutting q), sewing = max 0 (sewing q), washing = max 0 (washing q),
      finishing = max 0 (finishing q), packing = max 0 (packing q)\<rparr>"

text \<open>
  Step 3.1: the day-wise quantities of one row, from its cumulative quantities and the entry
  of \<open>previous_quantities_by_combo\<close> for its key. The warning printed when a difference is
  negative is not part of the returned rows.
\<close>

definition daywise :: "quantities \<Rightarrow> (date \<times> quantities) option \<Rightarrow> quantities" where
  "daywise cumulative previous_data =
     (case previous_data of
        Some (previous_date, previous_quantities) \<Rightarrow>
          (let d = q_sub cumulative previous_quantities
           in if any_negative d then clamp_negative d else d)
      | None \<Rightarrow> cumulative)"

type_synonym snapshots = "combo_key \<rightharpoonup> date \<times> quantities"

text \<open>One pass of the loop of step 3: the row emitted and the dictionary afterwards.\<close>

definition convert_step :: "snapshots \<Rightarrow> date \<times> prod_row \<Rightarrow> prod_row \<times> snapshots" where
  "convert_step previous_quantities_by_combo dr =
     (let date_obj = fst dr; row = snd dr;
          combo_key = combo_key_of row;
          updated_row = \<lparr>a_style_no = a_style_no row, a_po = a_po row, a_colour = a_colour row,
                         a_date = a_date row, a_order_quantity = None,
                         actual = daywise (actual row) (previous_quantities_by_combo combo_key),
                         a_source_sheet = a_source_sheet row, a_source_row = a_source_row row\<rparr>
      in (updated_row, previous_quantities_by_combo(combo_key \<mapsto> (date_obj, actual row))))"

fun convert_loop :: "snapshots \<Rightarrow> (date \<times> prod_row) list \<Rightarrow> prod_row list \<times> snapshots" where
  "convert_loop prev [] = ([], prev)"
| "convert_loop prev (dr # rest) =
     (let (updated_row, prev') = convert_step prev dr;
          (result_list, final) = convert_loop prev' rest
      in (updated_row # result_list, final))"

definition convert_cumulative_to_daywise_quantities_for_daily_prod ::
    "prod_row list \<Rightarrow> prod_row list" where
  "convert_cumulative_to_daywise_quantities_for_daily_prod daily_prod_data =
     fst (convert_loop Map.empty (dated_rows daily_prod_data))"

definition nonneg :: "quantities \<Rightarrow> bool" where
  "nonneg q \<longleftrightarrow> 0 \<le> cutting q \<and> 0 \<le> sewing q \<and> 0 \<le> washing q \<and> 0 \<le> finishing q \<and> 0 \<le> packing q"

text \<open>The quantities emitted for the rows of one key, given the key's entry of the dictionary.\<close>
fun key_deltas :: "(date \<times> quantities) option \<Rightarrow> (date \<times> prod_row) list \<Rightarrow> quantities list" where
  "key_deltas p [] = []"
| "key_deltas p (dr # rest) = daywise (actual (snd dr)) p # key_deltas (Some (fst dr, actual (snd dr))) rest"

definition date_upto :: "date \<Rightarrow> prod_row \<Rightarrow> bool" where
  "date_upto D r = (case strptime_dby (a_date r) of Some d \<Rightarrow> d \<le> D | None \<Rightarrow> False)"

definition key_rows_upto :: "combo_key \<Rightarrow> date \<Rightarrow> prod_row list \<Rightarrow> (date \<times> prod_row) list" where
  "key_rows_upto k D daily_prod_data =
     filter (\<lambda>dr. combo_key_of (snd dr) = k \<and> fst dr \<le> D) (dated_rows daily_prod_data)"

definition emitted_upto :: "combo_key \<Rightarrow> date \<Rightarrow> prod_row list \<Rightarrow> prod_row list" where
  "emitted_upto k D daily_prod_data =
     filter (\<lambda>r. combo_key_of r = k \<and> date_upto D r)
       (convert_cumulative_to_daywise_quantities_for_daily_prod daily_prod_data)"

definition example_row :: "string \<Rightarrow> int \<Rightarrow> prod_row" where
  "example_row d c =
     \<lparr>a_style_no = ''A1'', a_po = ''100'', a_colour = ''Red'', a_date = d,
      a_order_quantity = Some 0,
      actual = \<lparr>cutting = c, sewing = 0, washing = 0, finishing = 0, packing = 0\<rparr>,
      a_source_sheet = d, a_source_row = 2\<rparr>"

definition glitch_rows :: "prod_row list" where
  "glitch_rows = [example_row ''01/Jan/25'' 10, example_row ''02/Jan/25'' 5]"

definition falling_rows :: "prod_row list" where
  "falling_rows =
     [example_row ''01/Jan/25'' 10, example_row ''02/Jan/25'' 5, example_row ''03/Jan/25'' 3]"

text \<open>
  Two rows of one lot: the same style without regard to case, the same purchase order and
  the same colour without regard to case, each without the white space around it.
\<close>

definition same_tracking_key :: "prod_row \<Rightarrow> prod_row \<Rightarrow> bool" where
  "same_tracking_key a b \<longleftrightarrow>
     str_upper (str_strip (a_style_no a)) = str_upper (str_strip (a_style_no b)) \<and>
     str_strip (a_po a) = str_strip (a_po b) \<and>
     str_lower (str_strip (a_colour a)) = str_lower (str_strip (a_colour b))"

text \<open>
  The rows of the lot of row \<open>i\<close> that are processed before it, \<open>i\<close> counting the rows in the
  order of processing.
\<close>

definition earlier_rows :: "prod_row list \<Rightarrow> nat \<Rightarrow> (date \<times> prod_row) list" where
  "earlier_rows daily_prod_data i =
     filter (\<lambda>dr. same_tracking_key (snd dr) (snd (dated_rows daily_prod_data ! i)))
       (take i (dated_rows daily_prod_data))"

text \<open>Rows whose style and colour differ in the case of an accented letter only.\<close>

definition accented_rows :: "prod_row list" where
  "accented_rows =
     [(example_row ''01/Jan/25'' 10)\<lparr>a_style_no := ''CAF'' @ [CHR 0xC9], a_colour := [CHR 0xC9]\<rparr>,
      (example_row ''02/Jan/25'' 15)\<lparr>a_style_no := ''caf'' @ [CHR 0xE9], a_colour := [CHR 0xE9]\<rparr>]"

section \<open>Plan rows, matched rows and the matcher\<close>

text \<open>
  A row of the plan data: the dictionary with the keys \<open>Style No\<close>, \<open>PO\<close>, \<open>Colour\<close>, \<open>Date\<close>,
  the five \<open>Planned ...\<close> quantities, \<open>Source Sheet\<close> and \<open>Source Row\<close>.
\<close>

record plan_row =
  p_style_no :: string
  p_po :: string
  p_colour :: string
  p_date :: string
  planned :: quantities
  p_source_sheet :: string
  p_source_row :: nat

record matched_row =
  m_style_no :: string
  m_po :: string
  m_colour :: string
  m_date :: string
  m_planned :: quantities
  m_actual :: quantities

type_synonym po_colour = "string \<times> string"

definition plan_key :: "plan_row \<Rightarrow> po_colour" where
  "plan_key row = (str_strip (p_po row), str_lower (str_strip (p_colour row)))"

definition actual_key :: "prod_row \<Rightarrow> po_colour" where
  "actual_key row = (str_strip (a_po row), str_lower (str_strip (a_colour row)))"

text \<open>Step 1: the rows of the given style.\<close>

definition plan_for_style :: "plan_row list \<Rightarrow> string \<Rightarrow> plan_row list" where
  "plan_for_style plan_data style_number =
     filter (\<lambda>row. str_upper (str_strip (p_style_no row)) = str_upper (str_strip style_number))
       plan_data"

definition actual_for_style :: "prod_row list \<Rightarrow> string \<Rightarrow> prod_row list" where
  "actual_for_style daily_prod_data style_number =
     filter (\<lambda>row. str_upper (str_strip (a_style_no row)) = str_upper (str_strip style_number))
       daily_prod_data"

text \<open>
  Step 2: the dictionaries \<open>plan_by_combo\<close> and \<open>actual_by_combo\<close>, from a (PO, colour) key
  to a dictionary from the date string to the row. A Python dictionary keeps its keys in
  the order of their first insertion and a later store under a key replaces the value in
  place, which is \<open>AList.update\<close> on an association list. The two loops of steps 2.1 and 2.2
  do the same with the plan rows and with the actual rows.
\<close>

type_synonym 'r by_combo = "(po_colour \<times> (string \<times> 'r) list) list"

definition add_to_combo :: "po_colour \<Rightarrow> string \<Rightarrow> 'r \<Rightarrow> 'r by_combo \<Rightarrow> 'r by_combo" where
  "add_to_combo combo_key date row by_combo =
     (case map_of by_combo combo_key of
        None \<Rightarrow> AList.update combo_key (AList.update date row []) by_combo
      | Some dates \<Rightarrow> AList.update combo_key (AList.update date row dates) by_combo)"

definition organize :: "('r \<Rightarrow> po_colour) \<Rightarrow> ('r \<Rightarrow> string) \<Rightarrow> 'r list \<Rightarrow> 'r by_combo" where
  "organize key_of date_of rows =
     foldl (\<lambda>by_combo row. add_to_combo (key_of row) (date_of row) row by_combo) [] rows"

text \<open>
  Step 3: the actual rows whose key is not in the plan, each with the reason reported.
  They are printed, and are no part of the value returned.
\<close>

datatype mismatch = UnknownPO | UnlistedColour "string list" | NotInPlan

definition error_detail :: "plan_row list \<Rightarrow> po_colour \<Rightarrow> mismatch" where
  "error_detail plan_rows combo_key =
     (let po = fst combo_key; colour = snd combo_key;
          plan_pos = map (\<lambda>row. fst (plan_key row)) plan_rows;
          colours = map (\<lambda>row. snd (plan_key row))
                      (filter (\<lambda>row. fst (plan_key row) = po) plan_rows)
      in if po \<notin> set plan_pos then UnknownPO
         else if colour \<notin> set colours then UnlistedColour (sort (remdups colours))
         else NotInPlan)"

definition unplanned_rows ::
    "plan_row list \<Rightarrow> prod_row list \<Rightarrow> string \<Rightarrow> (po_colour \<times> string \<times> string \<times> nat \<times> mismatch) list" where
  "unplanned_rows plan_data daily_prod_data style_number =
     (let plan_rows = plan_for_style plan_data style_number;
          plan_by_combo = organize plan_key p_date plan_rows;
          actual_by_combo = organize actual_key a_date (actual_for_style daily_prod_data style_number)
      in concat (map (\<lambda>(combo_key, dates).
                   if map_of plan_by_combo combo_key = None
                   then map (\<lambda>(date, actual_row).
                               (combo_key, date, a_source_sheet actual_row, a_source_row actual_row,
                                error_detail plan_rows combo_key)) dates
                   else [])
                 actual_by_combo))"

text \<open>
  Step 4. \<open>all_dates\<close> is a Python set of strings: the order in which it is iterated is
  that of its hash table, which Python does not specify and which changes from run to
  run. The order is the parameter \<open>slot\<close>: the set of a key is iterated in ascending order
  of \<open>slot combo_key\<close>; every order of every set is that of some \<open>slot\<close>, and nothing is
  assumed of it. The date strings that parse are then sorted by the date they parse to
  (stable), so that the order of iteration shows only between different strings of the
  same day.
\<close>

definition sorted_dates :: "string list \<Rightarrow> string list" where
  "sorted_dates all_dates =
     map fst (sort_key snd
       (List.map_filter
          (\<lambda>date_str. map_option (\<lambda>date_obj. (date_str, date_obj)) (strptime_dby date_str))
          all_dates))"

definition matched_row_for ::
    "string \<Rightarrow> po_colour \<Rightarrow> (string \<times> plan_row) list \<Rightarrow> (string \<times> prod_row) list \<Rightarrow> string
       \<Rightarrow> matched_row" where
  "matched_row_for style_number combo_key plan_dates actual_dates date =
     \<lparr>m_style_no = style_number, m_po = fst combo_key, m_colour = snd combo_key, m_date = date,
      m_planned = (case map_of plan_dates date of
                     Some plan_row \<Rightarrow> planned plan_row
                   | None \<Rightarrow> q_zero),
      m_actual = (case map_of actual_dates date of
                    Some actual_row \<Rightarrow> actual actual_row
                  | None \<Rightarrow> q_zero)\<rparr>"

definition rows_for_combo ::
    "(po_colour \<Rightarrow> string \<Rightarrow> nat) \<Rightarrow> string \<Rightarrow> plan_row by_combo \<Rightarrow> prod_row by_combo
       \<Rightarrow> po_colour \<Rightarrow> matched_row list" where
  "rows_for_combo slot style_number plan_by_combo actual_by_combo combo_key =
     (let plan_dates = (case map_of plan_by_combo combo_key of Some ds \<Rightarrow> ds | None \<Rightarrow> []);
          actual_dates = (case map_of actual_by_combo combo_key of Some ds \<Rightarrow> ds | None \<Rightarrow> []);
          all_dates = sort_key (slot combo_key)
                        (remdups (map fst plan_dates @ map fst actual_dates))
      in map (matched_row_for style_number combo_key plan_dates actual_dates)
           (sorted_dates all_dates))"

definition match_plan_with_actual ::
    "(po_colour \<Rightarrow> string \<Rightarrow> nat) \<Rightarrow> plan_row list \<Rightarrow> prod_row list \<Rightarrow> string
       \<Rightarrow> matched_row list" where
  "match_plan_with_actual slot plan_data daily_prod_data style_number =
     (let plan_by_combo = organize plan_key p_date (plan_for_style plan_data style_number);
          actual_by_combo =
            organize actual_key a_date (actual_for_style daily_prod_data style_number)
      in concat (map (rows_for_combo slot style_number plan_by_combo actual_by_combo)
                   (sort (map fst plan_by_combo))))"

text \<open>The order of iteration used in the examples: that of insertion.\<close>

definition insertion_order :: "po_colour \<Rightarrow> string \<Rightarrow> nat" where
  "insertion_order combo_key date_str = 0"

section \<open>The row pruner\<close>

definition total_quantity :: "matched_row \<Rightarrow> int" where
  "total_quantity row =
     cutting (m_planned row) + sewing (m_planned row) + washing (m_planned row)
       + finishing (m_planned row) + packing (m_planned row)
       + cutting (m_actual row) + sewing (m_actual row) + finishing (m_actual row)
       + washing (m_actual row) + packing (m_actual row)"

text \<open>The loop appends the rows whose total is not zero, in order, and counts the others.\<close>

definition delete_empty_rows :: "matched_row list \<Rightarrow> matched_row list" where
  "delete_empty_rows matched_data = filter (\<lambda>row. total_quantity row \<noteq> 0) matched_data"

definition example_plan_row :: "string \<Rightarrow> int \<Rightarrow> plan_row" where
  "example_plan_row d c =
     \<lparr>p_style_no = ''A1'', p_po = ''100'', p_colour = ''red'', p_date = d,
      planned = \<lparr>cutting = c, sewing = 0, washing = 0, finishing = 0, packing = 0\<rparr>,
      p_source_sheet = ''A1'', p_source_row = 2\<rparr>"

definition dates_of :: "'r by_combo \<Rightarrow> po_colour \<Rightarrow> (string \<times> 'r) list" where
  "dates_of by_combo combo_key = (case map_of by_combo combo_key of Some ds \<Rightarrow> ds | None \<Rightarrow> [])"

definition matched_key :: "matched_row \<Rightarrow> po_colour" where
  "matched_key r = (m_po r, m_colour r)"


definition small_plan :: "plan_row list" where
  "small_plan = [example_plan_row ''01/Jan/25'' 50, example_plan_row ''01/Jan/25'' 7]"

definition small_actual :: "prod_row list" where
  "small_actual =
     [example_row ''01/Jan/25'' 30, example_row ''01/Jan/25'' 4,
      (example_row ''02/Jan/25'' 55)\<lparr>a_po := ''999''\<rparr>]"

definition all_zero :: "matched_row \<Rightarrow> bool" where
  "all_zero row \<longleftrightarrow> m_planned row = q_zero \<and> m_actual row = q_zero"

section \<open>The cumulative aggregator\<close>

text \<open>\<open>strftime('%A')\<close>: the name of the day of the week, from the ordinal of the date.\<close>

definition days_before_year :: "int \<Rightarrow> int" where
  "days_before_year y = (y - 1) * 365 + (y - 1) div 4 - (y - 1) div 100 + (y - 1) div 400"

definition days_before_month :: "int \<Rightarrow> int \<Rightarrow> int" where
  "days_before_month y m = sum_list (map (days_in_month y) [1..m - 1])"

definition toordinal :: "date \<Rightarrow> int" where
  "toordinal dt =
     (case dt of (y, m, d) \<Rightarrow> days_before_year y + days_before_month y m + d)"

definition day_names :: "string list" where
  "day_names = [''Monday'', ''Tuesday'', ''Wednesday'', ''Thursday'', ''Friday'',
                ''Saturday'', ''Sunday'']"

definition weekday_name :: "date \<Rightarrow> string" where
  "weekday_name dt = day_names ! nat ((toordinal dt + 6) mod 7)"

record aggregated_row =
  g_style_no :: string
  g_po :: string
  g_colour :: string
  g_date :: string
  g_day :: string
  g_planned :: quantities
  g_actual :: quantities
  g_day_diff :: quantities
  g_cum_planned :: quantities
  g_cum_actual :: quantities
  g_cum_diff :: quantities

text \<open>
  Step 1: the dictionary \<open>grouped_rows\<close>, from (Style No, PO, Colour) as the matched row has
  them to the rows of the group paired with their dates, in input order. A row whose date
  does not parse is skipped.
\<close>

type_synonym group_id = "string \<times> string \<times> string"

definition group_key :: "matched_row \<Rightarrow> group_id" where
  "group_key row = (m_style_no row, m_po row, m_colour row)"

type_synonym grouped = "(group_id \<times> (matched_row \<times> date) list) list"

definition add_to_group :: "grouped \<Rightarrow> matched_row \<Rightarrow> grouped" where
  "add_to_group grouped_rows row =
     (case strptime_dby (m_date row) of
        None \<Rightarrow> grouped_rows
      | Some date_obj \<Rightarrow>
          AList.update (group_key row)
            ((case map_of grouped_rows (group_key row) of None \<Rightarrow> [] | Some rs \<Rightarrow> rs)
               @ [(row, date_obj)])
            grouped_rows)"

definition group_rows :: "matched_row list \<Rightarrow> grouped" where
  "group_rows matched_data = foldl add_to_group [] matched_data"

text \<open>Step 2.1: the variables of the loop over one group.\<close>

record agg_state =
  cumulative_planned :: quantities
  cumulative_actual :: quantities
  current_date :: "date option"
  current_date_cumulative_planned :: quantities
  current_date_cumulative_actual :: quantities
  current_date_total_planned :: quantities
  current_date_total_actual :: quantities

definition initial_state :: agg_state where
  "initial_state =
     \<lparr>cumulative_planned = q_zero, cumulative_actual = q_zero, current_date = None,
      current_date_cumulative_planned = q_zero, current_date_cumulative_actual = q_zero,
      current_date_total_planned = q_zero, current_date_total_actual = q_zero\<rparr>"

text \<open>
  Step 2.2.1: on a new date the totals of the previous date are added to the cumulative
  values (unless this is the first date), and the totals of the new date are summed over
  all rows of the group that carry it.
\<close>

definition enter_date :: "(matched_row \<times> date) list \<Rightarrow> agg_state \<Rightarrow> date \<Rightarrow> agg_state" where
  "enter_date rows_with_dates st date_obj =
     (if current_date st = None \<or> current_date st \<noteq> Some date_obj then
        (let cp = (if current_date st \<noteq> None
                   then q_add (cumulative_planned st) (current_date_total_planned st)
                   else cumulative_planned st);
             ca = (if current_date st \<noteq> None
                   then q_add (cumulative_actual st) (current_date_total_actual st)
                   else cumulative_actual st);
             same_date = filter (\<lambda>future. snd future = date_obj) rows_with_dates;
             tp = q_sum (map (\<lambda>future. m_planned (fst future)) same_date);
             ta = q_sum (map (\<lambda>future. m_actual (fst future)) same_date)
         in \<lparr>cumulative_planned = cp, cumulative_actual = ca, current_date = Some date_obj,
             current_date_cumulative_planned = q_add cp tp,
             current_date_cumulative_actual = q_add ca ta,
             current_date_total_planned = tp, current_date_total_actual = ta\<rparr>)
      else st)"

text \<open>Steps 2.2.2 to 2.2.6: the row emitted, from the state after step 2.2.1.\<close>

definition new_row :: "agg_state \<Rightarrow> matched_row \<Rightarrow> date \<Rightarrow> aggregated_row" where
  "new_row st row date_obj =
     \<lparr>g_style_no = m_style_no row, g_po = m_po row, g_colour = m_colour row,
      g_date = m_date row, g_day = weekday_name date_obj,
      g_planned = m_planned row, g_actual = m_actual row,
      g_day_diff = q_sub (m_actual row) (m_planned row),
      g_cum_planned = current_date_cumulative_planned st,
      g_cum_actual = current_date_cumulative_actual st,
      g_cum_diff = q_sub (current_date_cumulative_actual st) (current_date_cumulative_planned st)\<rparr>"

fun agg_loop ::
    "(matched_row \<times> date) list \<Rightarrow> agg_state \<Rightarrow> (matched_row \<times> date) list \<Rightarrow> aggregated_row list" where
  "agg_loop rows_with_dates st [] = []"
| "agg_loop rows_with_dates st (rd # rest) =
     (let st' = enter_date rows_with_dates st (snd rd)
      in new_row st' (fst rd) (snd rd) # agg_loop rows_with_dates st' rest)"

definition process_group :: "(matched_row \<times> date) list \<Rightarrow> aggregated_row list" where
  "process_group rows_with_dates =
     (let sorted_rows = sort_key snd rows_with_dates
      in agg_loop sorted_rows initial_state sorted_rows)"

text \<open>
  Step 3: the final sort by (Style No, PO, Colour, date). Every emitted row carries the
  date string of a row whose date parsed in step 1, so \<open>strptime\<close> does not fail here.
\<close>

definition final_key :: "aggregated_row \<Rightarrow> string \<times> string \<times> string \<times> date option" where
  "final_key x = (g_style_no x, g_po x, g_colour x, strptime_dby (g_date x))"

definition add_cumulative_columns_to_matched_dict :: "matched_row list \<Rightarrow> aggregated_row list" where
  "add_cumulative_columns_to_matched_dict matched_data =
     (if matched_data = [] then []
      else sort_key final_key
             (concat (map (\<lambda>group. process_group (snd group)) (group_rows matched_data))))"

definition example_matched :: "string \<Rightarrow> string \<Rightarrow> int \<Rightarrow> int \<Rightarrow> matched_row" where
  "example_matched c d p a =
     \<lparr>m_style_no = ''A1'', m_po = ''100'', m_colour = c, m_date = d,
      m_planned = \<lparr>cutting = p, sewing = 0, washing = 0, finishing = 0, packing = 0\<rparr>,
      m_actual = \<lparr>cutting = a, sewing = 0, washing = 0, finishing = 0, packing = 0\<rparr>\<rparr>"





definition report_rows :: "matched_row list" where
  "report_rows =
     [example_matched ''red'' ''02/Jan/25'' 0 25, example_matched ''red'' ''01/Jan/25'' 50 30]"


section \<open>Plan ingestion\<close>

text \<open>
  The sheet of one style as \<open>pandas\<close> hands it over (steps 1 and 2 of
  \<open>get_row_wise_data_from_plan\<close> open the file and read the sheet; they are outside the
  model). A cell of the columns \<open>Style #\<close>, \<open>PO#\<close> and \<open>Colour\<close> is \<open>None\<close> when it is blank
  and otherwise the text that \<open>str\<close> gives for its value (for a \<open>PO#\<close> read as a float, the
  text of its integer part). A cell of the column \<open>Date\<close> is blank, a \<open>datetime\<close> value, or
  any other value given by its text. A quantity cell is blank, a number (a float is the
  rational it denotes), or a value that \<open>float\<close> or \<open>int\<close> rejects.
\<close>

datatype date_cell = DBlank | DDateTime date | DText string

datatype qcell = QBlank | QNum rat | QBad

record qcells =
  c_cutting :: qcell
  c_sewing :: qcell
  c_washing :: qcell
  c_finishing :: qcell
  c_packing :: qcell

record raw_plan_row =
  style_cell :: "string option"
  po_cell :: "string option"
  colour_cell :: "string option"
  date_value :: date_cell
  quantity_cells :: qcells

text \<open>
  What the function reports: the entries of \<open>blank_cells\<close> and \<open>decimal_quantities\<close> and
  the messages printed at once, each with the row number of the sheet.
\<close>

datatype year_source = Adjacent_Rows | Row_Above | Row_Below

datatype diag =
    Blank_Row nat
  | Blank_Cell string nat
  | Date_Blank nat
  | Suspicious_Year nat date
  | Auto_Corrected nat date year_source
  | Cannot_Determine_Year nat
  | Year_Increased nat int nat int
  | Year_Decreased nat int nat int
  | Unparseable_Date nat
  | Unparseable_Quantity stage nat
  | Decimal_Rounded stage nat rat int

text \<open>\<open>re.sub(r'\s+', ' ', s)\<close>: every run of white space becomes one space.\<close>

function collapse_ws :: "string \<Rightarrow> string" where
  "collapse_ws [] = []"
| "collapse_ws (c # cs) =
     (if isspace c then CHR '' '' # collapse_ws (dropWhile isspace cs) else c # collapse_ws cs)"
  by pat_completeness auto
termination
  by (relation "measure length") (auto simp: length_dropWhile_le less_Suc_eq_le)

definition normalize_colour :: "string \<Rightarrow> string" where
  "normalize_colour colour_value = str_lower (collapse_ws (str_strip colour_value))"

text \<open>\<open>strftime('%d/%b/%y')\<close>.\<close>

definition two_digits :: "int \<Rightarrow> string" where
  "two_digits n = [''0123456789'' ! nat (n div 10 mod 10), ''0123456789'' ! nat (n mod 10)]"

definition month_abbr :: "int \<Rightarrow> string" where
  "month_abbr m =
     [''Jan'', ''Feb'', ''Mar'', ''Apr'', ''May'', ''Jun'',
      ''Jul'', ''Aug'', ''Sep'', ''Oct'', ''Nov'', ''Dec''] ! nat (m - 1)"

definition strftime_dby :: "date \<Rightarrow> string" where
  "strftime_dby dt =
     (case dt of (y, m, d) \<Rightarrow> two_digits d @ ''/'' @ month_abbr m @ ''/'' @ two_digits (y mod 100))"

definition year_of :: "date \<Rightarrow> int" where
  "year_of dt = fst dt"

definition month_of :: "date \<Rightarrow> int" where
  "month_of dt = fst (snd dt)"

definition day_of :: "date \<Rightarrow> int" where
  "day_of dt = snd (snd dt)"

text \<open>
  \<open>date_parsed.replace(year=y)\<close>: \<open>None\<close> is the \<open>ValueError\<close> raised when the month has no
  such day in the year \<open>y\<close> (29 February).
\<close>

definition replace_year :: "date \<Rightarrow> int \<Rightarrow> date option" where
  "replace_year dt y =
     (if day_of dt \<le> days_in_month y (month_of dt) then Some (y, month_of dt, day_of dt)
      else None)"

text \<open>
  The date of a cell that is not blank: a \<open>datetime\<close> is taken as it is, any other value is
  read by \<open>dateutil.parser.parse(str(value), dayfirst=False)\<close>. That parser is a library
  function, here the parameter \<open>parse\<close>, with \<open>None\<close> for the exception it raises.
\<close>

fun parse_cell :: "(string \<Rightarrow> date option) \<Rightarrow> date_cell \<Rightarrow> date option" where
  "parse_cell parse DBlank = None"
| "parse_cell parse (DDateTime dt) = Some dt"
| "parse_cell parse (DText s) = parse s"

text \<open>The year of the most recently accepted row.\<close>

definition year_above :: "(nat \<times> date) list \<Rightarrow> int option" where
  "year_above parsed_dates_with_indices =
     (if parsed_dates_with_indices = [] then None
      else Some (year_of (snd (last parsed_dates_with_indices))))"

text \<open>
  The year of the next row of the sheet, looked at without processing it: used only if the
  row exists, its date is not blank and parses, and the year is between 2000 and 2100.
\<close>

definition year_below :: "(string \<Rightarrow> date option) \<Rightarrow> raw_plan_row list \<Rightarrow> nat \<Rightarrow> int option" where
  "year_below parse df index =
     (if index + 1 < length df then
        (case parse_cell parse (date_value (df ! (index + 1))) of
           None \<Rightarrow> None
         | Some next_date_parsed \<Rightarrow>
             (if 2000 \<le> year_of next_date_parsed \<and> year_of next_date_parsed \<le> 2100
              then Some (year_of next_date_parsed) else None))
      else None)"

text \<open>The decision on the year: the year to adopt and where it comes from, or none.\<close>

fun year_choice :: "int option \<Rightarrow> int option \<Rightarrow> (int \<times> year_source) option" where
  "year_choice (Some a) (Some b) = (if a = b then Some (a, Adjacent_Rows) else None)"
| "year_choice (Some a) None = Some (a, Row_Above)"
| "year_choice None (Some b) = Some (b, Row_Below)"
| "year_choice None None = None"

text \<open>The check of the year against the previous accepted date.\<close>

definition year_change :: "(nat \<times> date) list \<Rightarrow> nat \<Rightarrow> date \<Rightarrow> diag list" where
  "year_change parsed_dates_with_indices excel_row_number date_parsed =
     (if parsed_dates_with_indices = [] then []
      else
        (let previous_date = snd (last parsed_dates_with_indices);
             previous_row_number = fst (last parsed_dates_with_indices) + 2
         in if year_of date_parsed > year_of previous_date then
              (if month_of date_parsed = 1 \<and> day_of date_parsed \<le> 14 then []
               else [Year_Increased previous_row_number (year_of previous_date)
                       excel_row_number (year_of date_parsed)])
            else if year_of date_parsed < year_of previous_date then
              [Year_Decreased previous_row_number (year_of previous_date)
                 excel_row_number (year_of date_parsed)]
            else []))"

text \<open>
  Step 5.5 for a date cell that is not blank: the date of the row, or \<open>None\<close> when the row
  is skipped, and the messages printed. Every exception raised inside the \<open>try\<close> block,
  that of \<open>replace\<close> included, ends in the same \<open>except\<close> branch.
\<close>

definition resolve_date ::
    "(string \<Rightarrow> date option) \<Rightarrow> raw_plan_row list \<Rightarrow> nat \<Rightarrow> (nat \<times> date) list \<Rightarrow> date_cell
       \<Rightarrow> date option \<times> diag list" where
  "resolve_date parse df index parsed_dates_with_indices cell =
     (let excel_row_number = index + 2 in
      case parse_cell parse cell of
        None \<Rightarrow> (None, [Unparseable_Date excel_row_number])
      | Some date_parsed \<Rightarrow>
          (if year_of date_parsed < 2020 \<or> year_of date_parsed > 2050 then
             (case year_choice (year_above parsed_dates_with_indices) (year_below parse df index) of
                None \<Rightarrow>
                  (None, [Suspicious_Year excel_row_number date_parsed,
                          Cannot_Determine_Year excel_row_number])
              | Some (y, src) \<Rightarrow>
                  (case replace_year date_parsed y of
                     None \<Rightarrow>
                       (None, [Suspicious_Year excel_row_number date_parsed,
                               Unparseable_Date excel_row_number])
                   | Some corrected_date \<Rightarrow>
                       (Some corrected_date,
                        [Suspicious_Year excel_row_number date_parsed,
                         Auto_Corrected excel_row_number corrected_date src]
                        @ year_change parsed_dates_with_indices excel_row_number corrected_date)))
           else
             (Some date_parsed,
              year_change parsed_dates_with_indices excel_row_number date_parsed)))"

text \<open>Python's \<open>round\<close> of a float to an integer: to the nearest, a tie to the even one.\<close>

definition py_round :: "rat \<Rightarrow> int" where
  "py_round q =
     (let f = \<lfloor>q\<rfloor>; r = q - of_int f
      in if r < 1 / 2 then f else if 1 / 2 < r then f + 1 else if even f then f else f + 1)"

text \<open>
  Step 5.6 for one quantity cell: the value stored, the entry of \<open>decimal_quantities\<close> and
  the message printed, if any.
\<close>

fun plan_quantity :: "stage \<Rightarrow> nat \<Rightarrow> qcell \<Rightarrow> int \<times> diag list \<times> diag list" where
  "plan_quantity s excel_row_number QBlank = (0, [], [])"
| "plan_quantity s excel_row_number (QNum quantity_float) =
     (if quantity_float = of_int \<lfloor>quantity_float\<rfloor> then (\<lfloor>quantity_float\<rfloor>, [], [])
      else (py_round quantity_float,
            [Decimal_Rounded s excel_row_number quantity_float (py_round quantity_float)], []))"
| "plan_quantity s excel_row_number QBad = (0, [], [Unparseable_Quantity s excel_row_number])"

definition plan_quantities :: "nat \<Rightarrow> qcells \<Rightarrow> quantities \<times> diag list \<times> diag list" where
  "plan_quantities n cells =
     (let c = plan_quantity Cutting n (c_cutting cells);
          s = plan_quantity Sewing n (c_sewing cells);
          w = plan_quantity Washing n (c_washing cells);
          f = plan_quantity Finishing n (c_finishing cells);
          p = plan_quantity Packing n (c_packing cells)
      in (\<lparr>cutting = fst c, sewing = fst s, washing = fst w, finishing = fst f, packing = fst p\<rparr>,
          fst (snd c) @ fst (snd s) @ fst (snd w) @ fst (snd f) @ fst (snd p),
          snd (snd c) @ snd (snd s) @ snd (snd w) @ snd (snd f) @ snd (snd p)))"

text \<open>Step 3: the index of the last row with one of the four main cells filled, or -1.\<close>

definition is_blank_plan_row :: "raw_plan_row \<Rightarrow> bool" where
  "is_blank_plan_row row \<longleftrightarrow>
     style_cell row = None \<and> po_cell row = None \<and> colour_cell row = None \<and>
     date_value row = DBlank"

definition last_non_blank_index :: "raw_plan_row list \<Rightarrow> int" where
  "last_non_blank_index df =
     (case filter (\<lambda>index. \<not> is_blank_plan_row (df ! index)) (rev [0..<length df]) of
        [] \<Rightarrow> - 1
      | index # _ \<Rightarrow> int index)"

text \<open>Step 4: the variables of the loop over the rows.\<close>

record plan_state =
  result_list :: "plan_row list"
  blank_cells :: "diag list"
  skipped_rows :: "nat list"
  decimal_quantities :: "diag list"
  printed :: "diag list"
  parsed_dates_with_indices :: "(nat \<times> date) list"

definition empty_plan_state :: plan_state where
  "empty_plan_state =
     \<lparr>result_list = [], blank_cells = [], skipped_rows = [], decimal_quantities = [],
      printed = [], parsed_dates_with_indices = []\<rparr>"

text \<open>Steps 5.2 to 5.4: the text of a cell and the blank cell reported.\<close>

definition text_cell :: "(string \<Rightarrow> string) \<Rightarrow> string \<Rightarrow> nat \<Rightarrow> string option \<Rightarrow> string \<times> diag list" where
  "text_cell clean column excel_row_number cell =
     (case cell of
        None \<Rightarrow> ('''', [Blank_Cell column excel_row_number])
      | Some v \<Rightarrow> (clean v, []))"

text \<open>Step 5: one pass of the loop, for the row at \<open>index\<close>.\<close>

definition plan_step ::
    "(string \<Rightarrow> date option) \<Rightarrow> string \<Rightarrow> raw_plan_row list \<Rightarrow> plan_state \<Rightarrow> nat \<Rightarrow> plan_state" where
  "plan_step parse style_number df st index =
     (let row = df ! index; excel_row_number = index + 2 in
      if is_blank_plan_row row then
        (if int index > last_non_blank_index df then st
         else st\<lparr>blank_cells := blank_cells st @ [Blank_Row excel_row_number]\<rparr>)
      else
        (let style = text_cell str_strip ''A'' excel_row_number (style_cell row);
             po = text_cell str_strip ''B'' excel_row_number (po_cell row);
             colour = text_cell normalize_colour ''C'' excel_row_number (colour_cell row);
             blanks = snd style @ snd po @ snd colour
         in case date_value row of
              DBlank \<Rightarrow>
                st\<lparr>blank_cells := blank_cells st @ blanks @ [Blank_Cell ''D'' excel_row_number],
                   printed := printed st @ [Date_Blank excel_row_number],
                   skipped_rows := skipped_rows st @ [excel_row_number]\<rparr>
            | cell \<Rightarrow>
                (case resolve_date parse df index (parsed_dates_with_indices st) cell of
                   (None, msgs) \<Rightarrow>
                     st\<lparr>blank_cells := blank_cells st @ blanks,
                        printed := printed st @ msgs,
                        skipped_rows := skipped_rows st @ [excel_row_number]\<rparr>
                 | (Some date_parsed, msgs) \<Rightarrow>
                     (let q = plan_quantities excel_row_number (quantity_cells row);
                          row_dict =
                            \<lparr>p_style_no = (if fst style \<noteq> [] then fst style else style_number),
                             p_po = fst po, p_colour = fst colour,
                             p_date = strftime_dby date_parsed, planned = fst q,
                             p_source_sheet = style_number, p_source_row = excel_row_number\<rparr>
                      in st\<lparr>result_list := result_list st @ [row_dict],
                            blank_cells := blank_cells st @ blanks,
                            decimal_quantities := decimal_quantities st @ fst (snd q),
                            printed := printed st @ msgs @ snd (snd q),
                            parsed_dates_with_indices :=
                              parsed_dates_with_indices st @ [(index, date_parsed)]\<rparr>))))"

definition plan_ingest ::
    "(string \<Rightarrow> date option) \<Rightarrow> raw_plan_row list \<Rightarrow> string \<Rightarrow> plan_state" where
  "plan_ingest parse df style_number =
     foldl (plan_step parse style_number df) empty_plan_state [0..<length df]"

text \<open>The variables of the loop when the pass for the row at \<open>index\<close> begins.\<close>

definition state_before ::
    "(string \<Rightarrow> date option) \<Rightarrow> string \<Rightarrow> raw_plan_row list \<Rightarrow> nat \<Rightarrow> plan_state" where
  "state_before parse style_number df index =
     foldl (plan_step parse style_number df) empty_plan_state [0..<index]"

text \<open>The list returned, and all that step 6 and the loop have printed for the sheet.\<close>

definition get_row_wise_data_from_plan ::
    "(string \<Rightarrow> date option) \<Rightarrow> raw_plan_row list \<Rightarrow> string \<Rightarrow> plan_row list" where
  "get_row_wise_data_from_plan parse df style_number =
     result_list (plan_ingest parse df style_number)"

definition plan_diagnostics ::
    "(string \<Rightarrow> date option) \<Rightarrow> raw_plan_row list \<Rightarrow> string \<Rightarrow> diag list \<times> diag list \<times> diag list \<times> nat list" where
  "plan_diagnostics parse df style_number =
     (let st = plan_ingest parse df style_number
      in (printed st, blank_cells st, decimal_quantities st, skipped_rows st))"

section \<open>Actual ingestion\<close>

text \<open>
  A sheet of the daily production file as \<open>pandas\<close> hands it over: its name, whether it
  could be read, the number of columns read, and its rows. The cells are as in the plan:
  \<open>PO#\<close> (column A), \<open>Style Number\<close> (E) and \<open>Colour\<close> (F) as text, the order quantity (G)
  and the quantities of cutting (H), sewing (I), finishing (J), washing (K) and packing (L)
  as quantity cells.
\<close>

record raw_prod_row =
  r_po_cell :: "string option"
  r_style_cell :: "string option"
  r_colour_cell :: "string option"
  r_order :: qcell
  r_cutting :: qcell
  r_sewing :: qcell
  r_finishing :: qcell
  r_washing :: qcell
  r_packing :: qcell

record raw_sheet =
  sheet_name :: string
  read_ok :: bool
  n_columns :: nat
  sheet_rows :: "raw_prod_row list"

datatype prod_diag =
    Sheet_Name_Unparseable string
  | Sheet_Unreadable string
  | Columns_Missing string
  | Sheet_Blank_Row string nat
  | Sheet_Blank_Cell string string nat
  | Style_Without_PID string nat string
  | Quantity_Negative string string nat rat
  | Quantity_Rounded string string nat rat int
  | Quantity_Not_Number string string nat

text \<open>The helper \<open>process_quantity\<close>: the value stored and the entries of \<open>quantity_warnings\<close>.\<close>

fun process_quantity :: "string \<Rightarrow> nat \<Rightarrow> qcell \<Rightarrow> string \<Rightarrow> int \<times> prod_diag list" where
  "process_quantity sheet excel_row_number QBlank col_letter = (0, [])"
| "process_quantity sheet excel_row_number (QNum quantity_float) col_letter =
     (if quantity_float < 0
      then (0, [Quantity_Negative sheet col_letter excel_row_number quantity_float])
      else if quantity_float = of_int \<lfloor>quantity_float\<rfloor> then (\<lfloor>quantity_float\<rfloor>, [])
      else (py_round quantity_float,
            [Quantity_Rounded sheet col_letter excel_row_number quantity_float
               (py_round quantity_float)]))"
| "process_quantity sheet excel_row_number QBad col_letter =
     (0, [Quantity_Not_Number sheet col_letter excel_row_number])"

text \<open>
  \<open>sep in s\<close> and \<open>s.split(sep)[1]\<close> for a separator that is not empty: the text between the
  first occurrence of the separator and the next one.
\<close>

fun contains :: "string \<Rightarrow> string \<Rightarrow> bool" where
  "contains sep [] \<longleftrightarrow> sep = []"
| "contains sep (x # xs) \<longleftrightarrow> take (length sep) (x # xs) = sep \<or> contains sep xs"

fun before_sep :: "string \<Rightarrow> string \<Rightarrow> string" where
  "before_sep sep [] = []"
| "before_sep sep (x # xs) =
     (if take (length sep) (x # xs) = sep then [] else x # before_sep sep xs)"

fun after_sep :: "string \<Rightarrow> string \<Rightarrow> string" where
  "after_sep sep [] = []"
| "after_sep sep (x # xs) =
     (if take (length sep) (x # xs) = sep then drop (length sep) (x # xs) else after_sep sep xs)"

definition split_second :: "string \<Rightarrow> string \<Rightarrow> string" where
  "split_second sep s = before_sep sep (after_sep sep s)"

text \<open>Step 3.4.3: the style number without its \<open>PID-\<close> or \<open>PID\<close> prefix.\<close>

definition style_of_cell :: "string \<Rightarrow> nat \<Rightarrow> string \<Rightarrow> string \<times> prod_diag list" where
  "style_of_cell sheet excel_row_number style_value =
     (let style_full = str_strip style_value in
      if contains ''PID-'' style_full then (str_strip (split_second ''PID-'' style_full), [])
      else if contains ''PID'' style_full then (str_strip (split_second ''PID'' style_full), [])
      else (style_full, [Style_Without_PID sheet excel_row_number style_full]))"

definition is_blank_prod_row :: "raw_prod_row \<Rightarrow> bool" where
  "is_blank_prod_row row \<longleftrightarrow>
     r_po_cell row = None \<and> r_style_cell row = None \<and> r_colour_cell row = None"

definition last_non_blank_prod_index :: "raw_prod_row list \<Rightarrow> int" where
  "last_non_blank_prod_index df =
     (case filter (\<lambda>index. \<not> is_blank_prod_row (df ! index)) (rev [0..<length df]) of
        [] \<Rightarrow> - 1
      | index # _ \<Rightarrow> int index)"

record prod_state =
  prod_result_list :: "prod_row list"
  prod_blank_cells :: "prod_diag list"
  skipped_sheets :: "string list"
  quantity_warnings :: "prod_diag list"
  prod_printed :: "prod_diag list"

definition empty_prod_state :: prod_state where
  "empty_prod_state =
     \<lparr>prod_result_list = [], prod_blank_cells = [], skipped_sheets = [],
      quantity_warnings = [], prod_printed = []\<rparr>"

text \<open>Step 3.4: one pass of the loop over the rows of a sheet.\<close>

definition prod_row_step ::
    "string \<Rightarrow> date \<Rightarrow> raw_prod_row list \<Rightarrow> prod_state \<Rightarrow> nat \<Rightarrow> prod_state" where
  "prod_row_step sheet sheet_date_parsed df st index =
     (let row = df ! index; excel_row_number = index + 2 in
      if is_blank_prod_row row then
        (if int index > last_non_blank_prod_index df then st
         else st\<lparr>prod_blank_cells :=
                   prod_blank_cells st @ [Sheet_Blank_Row sheet excel_row_number]\<rparr>)
      else
        (let po = (case r_po_cell row of
                     None \<Rightarrow> ('''', [Sheet_Blank_Cell sheet ''A'' excel_row_number])
                   | Some v \<Rightarrow> (str_strip v, []));
             style = (case r_style_cell row of
                        None \<Rightarrow> (('''', []), [Sheet_Blank_Cell sheet ''E'' excel_row_number])
                      | Some v \<Rightarrow> (style_of_cell sheet excel_row_number v, []));
             colour = (case r_colour_cell row of
                         None \<Rightarrow> ('''', [Sheet_Blank_Cell sheet ''F'' excel_row_number])
                       | Some v \<Rightarrow> (normalize_colour v, []));
             order_quantity = process_quantity sheet excel_row_number (r_order row) ''G'';
             actual_cutting = process_quantity sheet excel_row_number (r_cutting row) ''H'';
             actual_sewing = process_quantity sheet excel_row_number (r_sewing row) ''I'';
             actual_finishing = process_quantity sheet excel_row_number (r_finishing row) ''J'';
             actual_washing = process_quantity sheet excel_row_number (r_washing row) ''K'';
             actual_packing = process_quantity sheet excel_row_number (r_packing row) ''L'';
             row_dict =
               \<lparr>a_style_no = fst (fst style), a_po = fst po, a_colour = fst colour,
                a_date = strftime_dby sheet_date_parsed,
                a_order_quantity = Some (fst order_quantity),
                actual = \<lparr>cutting = fst actual_cutting, sewing = fst actual_sewing,
                          washing = fst actual_washing, finishing = fst actual_finishing,
                          packing = fst actual_packing\<rparr>,
                a_source_sheet = sheet, a_source_row = excel_row_number\<rparr>
         in st\<lparr>prod_result_list := prod_result_list st @ [row_dict],
               prod_blank_cells := prod_blank_cells st @ snd po @ snd style @ snd colour,
               quantity_warnings :=
                 quantity_warnings st @ snd order_quantity @ snd actual_cutting
                   @ snd actual_sewing @ snd actual_finishing @ snd actual_washing
                   @ snd actual_packing,
               prod_printed := prod_printed st @ snd (fst style)\<rparr>))"

text \<open>
  Step 3: one pass of the loop over the sheets. The name of the sheet is read as a date by
  \<open>dateutil.parser.parse(sheet_name, dayfirst=True)\<close>, the parameter \<open>parse_name\<close>.
\<close>

definition sheet_step :: "(string \<Rightarrow> date option) \<Rightarrow> prod_state \<Rightarrow> raw_sheet \<Rightarrow> prod_state" where
  "sheet_step parse_name st sheet =
     (case parse_name (sheet_name sheet) of
        None \<Rightarrow>
          st\<lparr>prod_printed := prod_printed st @ [Sheet_Name_Unparseable (sheet_name sheet)],
             skipped_sheets := skipped_sheets st @ [sheet_name sheet]\<rparr>
      | Some sheet_date_parsed \<Rightarrow>
          (if \<not> read_ok sheet then
             st\<lparr>prod_printed := prod_printed st @ [Sheet_Unreadable (sheet_name sheet)],
                skipped_sheets := skipped_sheets st @ [sheet_name sheet]\<rparr>
           else if n_columns sheet < 9 then
             st\<lparr>prod_printed := prod_printed st @ [Columns_Missing (sheet_name sheet)],
                skipped_sheets := skipped_sheets st @ [sheet_name sheet]\<rparr>
           else
             foldl (prod_row_step (sheet_name sheet) sheet_date_parsed (sheet_rows sheet)) st
               [0..<length (sheet_rows sheet)]))"

definition prod_ingest :: "(string \<Rightarrow> date option) \<Rightarrow> raw_sheet list \<Rightarrow> prod_state" where
  "prod_ingest parse_name sheets = foldl (sheet_step parse_name) empty_prod_state sheets"

definition get_row_wise_data_from_daily_prod ::
    "(string \<Rightarrow> date option) \<Rightarrow> raw_sheet list \<Rightarrow> prod_row list" where
  "get_row_wise_data_from_daily_prod parse_name sheets =
     prod_result_list (prod_ingest parse_name sheets)"

section \<open>Example sheets\<close>

text \<open>
  The date that \<open>dateutil\<close> reads from a text of the form day/month name/four-digit year,
  as \<open>16/Sep/0202\<close>; a text of another form is outside this definition (\<open>None\<close> here). It
  stands for the parser in the examples.
\<close>

fun parse_year4 :: "string \<Rightarrow> int option" where
  "parse_year4 [a, b, c, d] =
     (case (digit_val a, digit_val b, digit_val c, digit_val d) of
        (Some w, Some x, Some y, Some z) \<Rightarrow> Some (1000 * w + 100 * x + 10 * y + z)
      | _ \<Rightarrow> None)"
| "parse_year4 _ = None"

definition parse_dmy4 :: "string \<Rightarrow> date option" where
  "parse_dmy4 s =
     (case split_on CHR ''/'' s of
        [ds, ms, ys] \<Rightarrow>
          (case (parse_day ds, parse_month ms, parse_year4 ys) of
             (Some d, Some m, Some y) \<Rightarrow>
               (if 1 \<le> y \<and> d \<le> days_in_month y m then Some (y, m, d) else None)
           | _ \<Rightarrow> None)
      | _ \<Rightarrow> None)"

definition all_cells :: "qcell \<Rightarrow> qcells" where
  "all_cells c = \<lparr>c_cutting = c, c_sewing = c, c_washing = c, c_finishing = c, c_packing = c\<rparr>"

definition dated_plan_row :: "date_cell \<Rightarrow> qcell \<Rightarrow> raw_plan_row" where
  "dated_plan_row dc c =
     \<lparr>style_cell = Some ''A1'', po_cell = Some ''100'', colour_cell = Some ''Red'',
      date_value = dc, quantity_cells = all_cells c\<rparr>"

definition repair_sheet :: "raw_plan_row list" where
  "repair_sheet =
     [dated_plan_row (DText ''16/Sep/0202'') (QNum 10),
      dated_plan_row (DText ''17/Sep/2025'') (QNum 10),
      dated_plan_row (DText ''18/Sep/2025'') (QNum 10)]"

definition disagreeing_sheet :: "raw_plan_row list" where
  "disagreeing_sheet =
     [dated_plan_row (DText ''15/Sep/2025'') (QNum 10),
      dated_plan_row (DText ''16/Sep/0202'') (QNum 10),
      dated_plan_row (DText ''17/Sep/1999'') (QNum 10)]"

definition blank_quantity_sheet :: "raw_plan_row list" where
  "blank_quantity_sheet = [dated_plan_row (DDateTime (2025, 9, 16)) QBlank]"

definition blank_quantity_prod_sheet :: raw_sheet where
  "blank_quantity_prod_sheet =
     \<lparr>sheet_name = ''16-SEP-25'', read_ok = True, n_columns = 9,
      sheet_rows = [\<lparr>r_po_cell = Some ''100'', r_style_cell = Some ''PID-A1'',
                     r_colour_cell = Some ''Red'', r_order = QBlank, r_cutting = QBlank,
                     r_sewing = QBlank, r_finishing = QBlank, r_washing = QBlank,
                     r_packing = QBlank\<rparr>]\<rparr>"

definition suspicious :: "date \<Rightarrow> bool" where
  "suspicious dt \<longleftrightarrow> year_of dt < 2020 \<or> year_of dt > 2050"

definition fill_blank :: "qcell \<Rightarrow> qcell" where
  "fill_blank c = (case c of QBlank \<Rightarrow> QNum 0 | QNum q \<Rightarrow> QNum q | QBad \<Rightarrow> QBad)"

definition fill_blank_plan_row :: "raw_plan_row \<Rightarrow> raw_plan_row" where
  "fill_blank_plan_row row =
     row\<lparr>quantity_cells :=
           \<lparr>c_cutting = fill_blank (c_cutting (quantity_cells row)),
            c_sewing = fill_blank (c_sewing (quantity_cells row)),
            c_washing = fill_blank (c_washing (quantity_cells row)),
            c_finishing = fill_blank (c_finishing (quantity_cells row)),
            c_packing = fill_blank (c_packing (quantity_cells row))\<rparr>\<rparr>"

definition fill_blank_prod_row :: "raw_prod_row \<Rightarrow> raw_prod_row" where
  "fill_blank_prod_row row =
     row\<lparr>r_order := fill_blank (r_order row), r_cutting := fill_blank (r_cutting row),
         r_sewing := fill_blank (r_sewing row), r_finishing := fill_blank (r_finishing row),
         r_washing := fill_blank (r_washing row), r_packing := fill_blank (r_packing row)\<rparr>"

definition fill_blank_sheet :: "raw_sheet \<Rightarrow> raw_sheet" where
  "fill_blank_sheet sheet = sheet\<lparr>sheet_rows := map fill_blank_prod_row (sheet_rows sheet)\<rparr>"

text \<open>A plan sheet with a negative planned quantity, and a day of production against it.\<close>

definition negative_plan_sheet :: "raw_plan_row list" where
  "negative_plan_sheet =
     [\<lparr>style_cell = Some ''A1'', po_cell = Some ''100'', colour_cell = Some ''Red'',
       date_value = DDateTime (2025, 1, 1),
       quantity_cells = \<lparr>c_cutting = QNum (- 5), c_sewing = QNum 0, c_washing = QNum 0,
                         c_finishing = QNum 0, c_packing = QNum 0\<rparr>\<rparr>]"

definition producing_sheet :: raw_sheet where
  "producing_sheet =
     \<lparr>sheet_name = ''01-JAN-25'', read_ok = True, n_columns = 9,
      sheet_rows = [\<lparr>r_po_cell = Some ''100'', r_style_cell = Some ''PID-A1'',
                     r_colour_cell = Some ''Red'', r_order = QNum 100, r_cutting = QNum 5,
                     r_sewing = QNum 0, r_finishing = QNum 0, r_washing = QNum 0,
                     r_packing = QNum 0\<rparr>]\<rparr>"

definition cancelling_matched :: "matched_row list" where
  "cancelling_matched =
     match_plan_with_actual insertion_order
       (get_row_wise_data_from_plan (\<lambda>s. None) negative_plan_sheet ''A1'')
       (convert_cumulative_to_daywise_quantities_for_daily_prod
          (get_row_wise_data_from_daily_prod (\<lambda>s. Some (2025, 1, 1)) [producing_sheet]))
       ''A1''"

definition leap_day_sheet :: "raw_plan_row list" where
  "leap_day_sheet =
     [dated_plan_row (DText ''15/Sep/2025'') (QNum 10),
      dated_plan_row (DText ''29/Feb/0204'') (QNum 10)]"

section \<open>The year repair and the dates written, in the words of the specification\<close>

text \<open>
  A \<open>datetime\<close> value is a date of the calendar, with a year from 1 to 9999. The directive
  \<open>%y\<close> reads the two digits that \<open>strftime\<close> writes for a year as a year from 1969 to 2068.
\<close>

definition valid_date :: "date \<Rightarrow> bool" where
  "valid_date dt \<longleftrightarrow>
     1 \<le> year_of dt \<and> year_of dt \<le> 9999 \<and> 1 \<le> month_of dt \<and> month_of dt \<le> 12 \<and>
     1 \<le> day_of dt \<and> day_of dt \<le> days_in_month (year_of dt) (month_of dt)"

definition pivot_year :: "int \<Rightarrow> int" where
  "pivot_year n = (if n \<le> 68 then 2000 + n else 1900 + n)"

text \<open>
  What a pass of the loop does with a row, from the variables before and after it: the
  row is accepted with a date (appended to the result with the date written as \<open>%d/%b/%y\<close>
  and with its row number of the sheet, and recorded in \<open>parsed_dates_with_indices\<close>), or
  it is dropped (not appended, and listed in \<open>skipped_rows\<close>).
\<close>

definition row_accepted :: "plan_state \<Rightarrow> plan_state \<Rightarrow> nat \<Rightarrow> date \<Rightarrow> bool" where
  "row_accepted st st' index dt \<longleftrightarrow>
     result_list st' = result_list st @ [last (result_list st')] \<and>
     p_date (last (result_list st')) = strftime_dby dt \<and>
     p_source_row (last (result_list st')) = index + 2 \<and>
     parsed_dates_with_indices st' = parsed_dates_with_indices st @ [(index, dt)] \<and>
     skipped_rows st' = skipped_rows st"

definition row_dropped :: "plan_state \<Rightarrow> plan_state \<Rightarrow> nat \<Rightarrow> bool" where
  "row_dropped st st' index \<longleftrightarrow>
     result_list st' = result_list st \<and>
     parsed_dates_with_indices st' = parsed_dates_with_indices st \<and>
     skipped_rows st' = skipped_rows st @ [index + 2]"

text \<open>
  The list \<open>parsed_dates_with_indices\<close> holds the accepted rows, in order: the row number and
  the date written of each entry are those of the row of the result at the same place.
\<close>

definition accepted_rows_recorded :: "plan_state \<Rightarrow> bool" where
  "accepted_rows_recorded st \<longleftrightarrow>
     map (\<lambda>jd. (fst jd + 2, strftime_dby (snd jd))) (parsed_dates_with_indices st)
       = map (\<lambda>r. (p_source_row r, p_date r)) (result_list st)"

text \<open>The year of the most recently accepted row, if a row was accepted.\<close>

definition accepted_year_above :: "plan_state \<Rightarrow> int option" where
  "accepted_year_above st =
     (if result_list st = [] then None
      else Some (year_of (snd (last (parsed_dates_with_indices st)))))"

text \<open>
  The year of the next row of the sheet: it counts only if the row exists, its date parses
  and the year is between 2000 and 2100.
\<close>

definition next_row_year ::
    "(string \<Rightarrow> date option) \<Rightarrow> raw_plan_row list \<Rightarrow> nat \<Rightarrow> int option" where
  "next_row_year parse df index =
     (case drop (Suc index) df of
        [] \<Rightarrow> None
      | next_row # _ \<Rightarrow>
          (case parse_cell parse (date_value next_row) of
             None \<Rightarrow> None
           | Some nd \<Rightarrow>
               (if 2000 \<le> year_of nd \<and> year_of nd \<le> 2100 then Some (year_of nd) else None)))"

text \<open>
  The year adopted: the common year when both years are available and agree, the one
  available when exactly one is, and none when neither is or the two differ.
\<close>

definition adopted_year :: "int option \<Rightarrow> int option \<Rightarrow> int option" where
  "adopted_year year_before year_after =
     (if year_before \<noteq> None \<and> year_after \<noteq> None
      then (if year_before = year_after then year_before else None)
      else if year_before \<noteq> None then year_before
      else year_after)"

text \<open>Every date the sheet gives, as a \<open>datetime\<close> cell or through the parser, is a date.\<close>

definition cells_valid :: "(string \<Rightarrow> date option) \<Rightarrow> raw_plan_row list \<Rightarrow> bool" where
  "cells_valid parse df \<longleftrightarrow>
     list_all (\<lambda>row. case parse_cell parse (date_value row) of
                       None \<Rightarrow> True
                     | Some dt \<Rightarrow> valid_date dt) df"

text \<open>A row of the year 202 below accepted rows of 2024 and of 2025.\<close>

definition two_year_sheet :: "raw_plan_row list" where
  "two_year_sheet =
     [dated_plan_row (DText ''30/Dec/2024'') (QNum 10),
      dated_plan_row (DText ''02/Jan/2025'') (QNum 10),
      dated_plan_row (DText ''16/Sep/0202'') (QNum 10)]"

section \<open>Properties of the day-wise converter\<close>

lemma qty_q_sub: "qty s (q_sub a b) = qty s a - qty s b"
  by (cases s) (simp_all add: q_sub_def)

lemma qty_q_add: "qty s (q_add a b) = qty s a + qty s b"
  by (cases s) (simp_all add: q_add_def)

lemma qty_q_zero: "qty s q_zero = 0"
  by (cases s) (simp_all add: q_zero_def)

lemma qty_q_sum: "qty s (q_sum qs) = sum_list (map (qty s) qs)"
  by (induction qs) (simp_all add: q_sum_def qty_q_add qty_q_zero)

lemma qty_clamp_negative: "qty s (clamp_negative q) = max 0 (qty s q)"
  by (cases s) (simp_all add: clamp_negative_def)

lemma not_any_negative: "\<not> any_negative q \<Longrightarrow> 0 \<le> qty s q"
  by (cases s) (auto simp: any_negative_def)

lemma nonneg_iff: "nonneg q \<longleftrightarrow> (\<forall>s. 0 \<le> qty s q)"
proof
  assume "nonneg q"
  then show "\<forall>s. 0 \<le> qty s q"
    by (auto simp: nonneg_def intro: stage.induct)
next
  assume h: "\<forall>s. 0 \<le> qty s q"
  from h[rule_format, of Cutting] h[rule_format, of Sewing] h[rule_format, of Washing]
       h[rule_format, of Finishing] h[rule_format, of Packing]
  show "nonneg q" by (simp add: nonneg_def)
qed

lemma qty_daywise_Some:
  "qty s (daywise c (Some (d, p))) = max 0 (qty s c - qty s p)"
proof (cases "any_negative (q_sub c p)")
  case True
  then show ?thesis by (simp add: daywise_def qty_clamp_negative qty_q_sub)
next
  case False
  from not_any_negative[OF False, of s] show ?thesis
    using False by (simp add: daywise_def qty_q_sub)
qed

lemma daywise_None: "daywise c None = c"
  by (simp add: daywise_def)

lemma nonneg_daywise: "nonneg c \<Longrightarrow> nonneg (daywise c p)"
proof (cases p)
  case None
  assume "nonneg c" then show ?thesis using None by (simp add: daywise_None)
next
  case (Some a)
  obtain d q where a: "a = (d, q)" by (cases a)
  show ?thesis unfolding nonneg_iff Some a by (simp add: qty_daywise_Some)
qed

lemma fst_convert_loop_Nil [simp]: "fst (convert_loop prev []) = []"
  by simp

lemma snd_convert_loop_Nil [simp]: "snd (convert_loop prev []) = prev"
  by simp

lemma fst_convert_loop_Cons:
  "fst (convert_loop prev (dr # rest)) =
     fst (convert_step prev dr) # fst (convert_loop (snd (convert_step prev dr)) rest)"
  by (simp add: split_beta Let_def)

lemma snd_convert_loop_Cons:
  "snd (convert_loop prev (dr # rest)) = snd (convert_loop (snd (convert_step prev dr)) rest)"
  by (simp add: split_beta Let_def)

declare convert_loop.simps [simp del]

lemma fst_convert_step:
  "fst (convert_step prev dr) =
     \<lparr>a_style_no = a_style_no (snd dr), a_po = a_po (snd dr), a_colour = a_colour (snd dr),
      a_date = a_date (snd dr), a_order_quantity = None,
      actual = daywise (actual (snd dr)) (prev (combo_key_of (snd dr))),
      a_source_sheet = a_source_sheet (snd dr), a_source_row = a_source_row (snd dr)\<rparr>"
  by (simp add: convert_step_def Let_def)

lemma snd_convert_step:
  "snd (convert_step prev dr) = prev(combo_key_of (snd dr) \<mapsto> (fst dr, actual (snd dr)))"
  by (simp add: convert_step_def Let_def)

lemma combo_key_of_emitted: "combo_key_of (fst (convert_step prev dr)) = combo_key_of (snd dr)"
  by (simp add: fst_convert_step combo_key_of_def)

lemma a_date_emitted: "a_date (fst (convert_step prev dr)) = a_date (snd dr)"
  by (simp add: fst_convert_step)

lemma actual_emitted:
  "actual (fst (convert_step prev dr)) = daywise (actual (snd dr)) (prev (combo_key_of (snd dr)))"
  by (simp add: fst_convert_step)

lemma date_upto_emitted:
  "strptime_dby (a_date (snd dr)) = Some (fst dr) \<Longrightarrow>
   date_upto D (fst (convert_step prev dr)) \<longleftrightarrow> fst dr \<le> D"
  by (simp add: date_upto_def a_date_emitted)

lemma convert_loop_nonneg:
  "\<forall>dr \<in> set xs. nonneg (actual (snd dr)) \<Longrightarrow>
   \<forall>r \<in> set (fst (convert_loop prev xs)). nonneg (actual r)"
proof (induction xs arbitrary: prev)
  case Nil
  then show ?case by simp
next
  case (Cons dr xs)
  then show ?case
    by (simp add: fst_convert_loop_Cons actual_emitted nonneg_daywise)
qed

lemma set_dated_rows: "(d, row) \<in> set (dated_rows inp) \<longleftrightarrow> row \<in> set inp \<and> strptime_dby (a_date row) = Some d"
  by (induction inp) (auto simp: dated_rows_def split: option.splits)

lemma sorted_dated_rows: "sorted (map fst (dated_rows inp))"
  by (simp add: dated_rows_def)

lemma convert_loop_append:
  "convert_loop prev (xs @ ys) =
     (fst (convert_loop prev xs) @ fst (convert_loop (snd (convert_loop prev xs)) ys),
      snd (convert_loop (snd (convert_loop prev xs)) ys))"
  by (induction xs arbitrary: prev) (simp_all add: fst_convert_loop_Cons snd_convert_loop_Cons prod_eq_iff)

lemma snd_convert_loop_other:
  "\<forall>dr \<in> set xs. combo_key_of (snd dr) \<noteq> k \<Longrightarrow> snd (convert_loop prev xs) k = prev k"
  by (induction xs arbitrary: prev) (auto simp: snd_convert_loop_Cons snd_convert_step)

lemma length_convert_loop: "length (fst (convert_loop prev xs)) = length xs"
  by (induction xs arbitrary: prev) (simp_all add: fst_convert_loop_Cons)

lemma filter_emitted_none:
  "\<forall>dr \<in> set xs. strptime_dby (a_date (snd dr)) = Some (fst dr) \<and> \<not> fst dr \<le> D \<Longrightarrow>
   filter (\<lambda>r. combo_key_of r = k \<and> date_upto D r) (fst (convert_loop prev xs)) = []"
  by (induction xs arbitrary: prev)
     (simp_all add: fst_convert_loop_Cons date_upto_emitted)

lemma filter_emitted:
  assumes "sorted (map fst xs)"
      and "\<forall>dr \<in> set xs. strptime_dby (a_date (snd dr)) = Some (fst dr)"
  shows "map actual (filter (\<lambda>r. combo_key_of r = k \<and> date_upto D r) (fst (convert_loop prev xs))) =
         key_deltas (prev k) (filter (\<lambda>dr. combo_key_of (snd dr) = k \<and> fst dr \<le> D) xs)"
  using assms
proof (induction xs arbitrary: prev)
  case Nil
  then show ?case by simp
next
  case (Cons dr xs)
  have parse: "strptime_dby (a_date (snd dr)) = Some (fst dr)" using Cons.prems by simp
  have IH: "\<And>prev. map actual (filter (\<lambda>r. combo_key_of r = k \<and> date_upto D r) (fst (convert_loop prev xs))) =
         key_deltas (prev k) (filter (\<lambda>dr. combo_key_of (snd dr) = k \<and> fst dr \<le> D) xs)"
    using Cons by simp
  show ?case
  proof (cases "fst dr \<le> D")
    case True
    then show ?thesis
      by (auto simp: fst_convert_loop_Cons combo_key_of_emitted date_upto_emitted[OF parse]
            actual_emitted IH snd_convert_step)
  next
    case False
    have later: "\<forall>x \<in> set xs. strptime_dby (a_date (snd x)) = Some (fst x) \<and> \<not> fst x \<le> D"
      using Cons.prems False by (auto simp: dest: order_trans)
    have "filter (\<lambda>dr. combo_key_of (snd dr) = k \<and> fst dr \<le> D) xs = []"
      using later by (simp add: filter_empty_conv)
    then show ?thesis using False filter_emitted_none[OF later]
      by (simp add: fst_convert_loop_Cons date_upto_emitted[OF parse])
  qed
qed

lemma key_deltas_sum:
  "ys \<noteq> [] \<Longrightarrow>
   qty s (actual (snd (last ys))) - (case p of None \<Rightarrow> 0 | Some (d, q) \<Rightarrow> qty s q)
     \<le> sum_list (map (qty s) (key_deltas p ys))"
proof (induction ys arbitrary: p)
  case Nil
  then show ?case by simp
next
  case (Cons dr ys)
  show ?case
  proof (cases "ys = []")
    case True
    then show ?thesis by (cases p) (auto simp: daywise_None qty_daywise_Some)
  next
    case False
    from Cons.IH[OF False, of "Some (fst dr, actual (snd dr))"] False
    show ?thesis by (cases p) (auto simp: daywise_None qty_daywise_Some)
  qed
qed

lemma key_deltas_sum_exact:
  "ys \<noteq> [] \<Longrightarrow> sorted (map (\<lambda>dr. qty s (actual (snd dr))) ys) \<Longrightarrow>
   (case p of None \<Rightarrow> True | Some (d, q) \<Rightarrow> qty s q \<le> qty s (actual (snd (hd ys)))) \<Longrightarrow>
   sum_list (map (qty s) (key_deltas p ys)) =
     qty s (actual (snd (last ys))) - (case p of None \<Rightarrow> 0 | Some (d, q) \<Rightarrow> qty s q)"
proof (induction ys arbitrary: p)
  case Nil
  then show ?case by simp
next
  case (Cons dr ys)
  show ?case
  proof (cases "ys = []")
    case True
    then show ?thesis using Cons.prems by (cases p) (auto simp: daywise_None qty_daywise_Some)
  next
    case False
    have "sorted (map (\<lambda>dr. qty s (actual (snd dr))) ys)" using Cons.prems by simp
    moreover have "qty s (actual (snd dr)) \<le> qty s (actual (snd (hd ys)))"
      using Cons.prems False by (cases ys) auto
    ultimately have "sum_list (map (qty s) (key_deltas (Some (fst dr, actual (snd dr))) ys)) =
        qty s (actual (snd (last ys))) - qty s (actual (snd dr))"
      using Cons.IH[OF False, of "Some (fst dr, actual (snd dr))"] by simp
    then show ?thesis using False Cons.prems by (cases p) (auto simp: daywise_None qty_daywise_Some)
  qed
qed

lemma sorted_last_ge: "sorted xs \<Longrightarrow> x \<in> set xs \<Longrightarrow> x \<le> last xs"
  by (induction xs) (auto)

lemma combo_key_of_eq_iff: "combo_key_of a = combo_key_of b \<longleftrightarrow> same_tracking_key a b"
  by (simp add: combo_key_of_def same_tracking_key_def)

lemma nth_convert_loop:
  "i < length xs \<Longrightarrow>
   fst (convert_loop prev xs) ! i
     = fst (convert_step (snd (convert_loop prev (take i xs))) (xs ! i))"
proof (induction xs arbitrary: prev i)
  case Nil
  then show ?case by simp
next
  case (Cons dr xs)
  show ?case
  proof (cases i)
    case 0
    then show ?thesis by (simp add: fst_convert_loop_Cons)
  next
    case (Suc j)
    then have "j < length xs" using Cons.prems by simp
    from Cons.IH[OF this, of "snd (convert_step prev dr)"] Suc
    show ?thesis by (simp add: fst_convert_loop_Cons snd_convert_loop_Cons)
  qed
qed

lemma snd_convert_loop_key:
  "snd (convert_loop prev xs) k =
     (if filter (\<lambda>dr. combo_key_of (snd dr) = k) xs = [] then prev k
      else Some (fst (last (filter (\<lambda>dr. combo_key_of (snd dr) = k) xs)),
                 actual (snd (last (filter (\<lambda>dr. combo_key_of (snd dr) = k) xs)))))"
proof (induction xs rule: rev_induct)
  case Nil
  then show ?case by simp
next
  case (snoc dr xs)
  have "snd (convert_loop prev (xs @ [dr])) k
          = ((snd (convert_loop prev xs))(combo_key_of (snd dr) \<mapsto> (fst dr, actual (snd dr)))) k"
    by (simp add: convert_loop_append snd_convert_loop_Cons snd_convert_step)
  then show ?case using snoc by simp
qed

lemma labels_convert_loop:
  "map (\<lambda>r. (a_style_no r, a_po r, a_colour r, a_date r, a_source_sheet r, a_source_row r))
     (fst (convert_loop prev xs))
   = map (\<lambda>dr. (a_style_no (snd dr), a_po (snd dr), a_colour (snd dr), a_date (snd dr),
               a_source_sheet (snd dr), a_source_row (snd dr))) xs"
  by (induction xs arbitrary: prev) (simp_all add: fst_convert_loop_Cons fst_convert_step)

text \<open>
  Claim C2, as the code has it. Take a row whose date parses, its date \<open>D\<close> and its key
  \<open>k\<close>; the rows of the key are the rows with the same style without regard to case, the
  same purchase order and the same colour without regard to case. The key's rows dated up
  to \<open>D\<close>, in processing order, end with a row dated \<open>D\<close>: its quantities are the cumulative
  total at \<open>D\<close>. For every stage, the sum of the day-wise quantities emitted for the key up
  to \<open>D\<close> is at least that cumulative total, and equals it when the stage's cumulative
  values never decrease along those rows, that is when no difference of the stage was
  replaced by 0.
\<close>

theorem daywise_sum_vs_cumulative:
  assumes "row \<in> set inp" and "strptime_dby (a_date row) = Some D" and "combo_key_of row = k"
  shows "key_rows_upto k D inp
           = filter (\<lambda>dr. same_tracking_key (snd dr) row \<and> fst dr \<le> D) (dated_rows inp) \<and>
         emitted_upto k D inp
           = filter (\<lambda>r. same_tracking_key r row \<and> date_upto D r)
               (convert_cumulative_to_daywise_quantities_for_daily_prod inp) \<and>
         fst (last (key_rows_upto k D inp)) = D \<and>
         qty s (actual (snd (last (key_rows_upto k D inp))))
           \<le> qty s (q_sum (map actual (emitted_upto k D inp))) \<and>
         (sorted (map (\<lambda>dr. qty s (actual (snd dr))) (key_rows_upto k D inp)) \<longrightarrow>
            qty s (q_sum (map actual (emitted_upto k D inp))) =
            qty s (actual (snd (last (key_rows_upto k D inp)))))"
proof -
  let ?sel = "key_rows_upto k D inp"
  have k: "combo_key_of r = k \<longleftrightarrow> same_tracking_key r row" for r
    using assms(3) combo_key_of_eq_iff[of r row] by simp
  have lot1: "key_rows_upto k D inp
           = filter (\<lambda>dr. same_tracking_key (snd dr) row \<and> fst dr \<le> D) (dated_rows inp)"
    by (simp add: key_rows_upto_def k)
  have lot2: "emitted_upto k D inp
           = filter (\<lambda>r. same_tracking_key r row \<and> date_upto D r)
               (convert_cumulative_to_daywise_quantities_for_daily_prod inp)"
    by (simp add: emitted_upto_def k)
  have mem: "(D, row) \<in> set ?sel"
    using assms by (simp add: key_rows_upto_def set_dated_rows)
  then have ne: "?sel \<noteq> []" by auto
  have srt: "sorted (map fst ?sel)"
    unfolding key_rows_upto_def by (rule sorted_filter) (rule sorted_dated_rows)
  have "last ?sel \<in> set ?sel" using ne by simp
  then have le: "fst (last ?sel) \<le> D" by (simp add: key_rows_upto_def)
  have "D \<in> set (map fst ?sel)" using mem by force
  from sorted_last_ge[OF srt this] have "D \<le> fst (last ?sel)"
    using ne by (simp add: last_map)
  with le have d: "fst (last ?sel) = D" by simp
  have parse: "\<forall>dr \<in> set (dated_rows inp). strptime_dby (a_date (snd dr)) = Some (fst dr)"
    by (auto simp: set_dated_rows)
  have em: "map actual (emitted_upto k D inp) = key_deltas None ?sel"
    unfolding emitted_upto_def key_rows_upto_def
      convert_cumulative_to_daywise_quantities_for_daily_prod_def
    using filter_emitted[OF sorted_dated_rows parse, of k D Map.empty] by simp
  have ge: "qty s (actual (snd (last ?sel))) \<le> qty s (q_sum (map actual (emitted_upto k D inp)))"
    using key_deltas_sum[OF ne, of s None] by (simp add: em qty_q_sum)
  have eq: "sorted (map (\<lambda>dr. qty s (actual (snd dr))) ?sel) \<longrightarrow>
            qty s (q_sum (map actual (emitted_upto k D inp))) = qty s (actual (snd (last ?sel)))"
    using key_deltas_sum_exact[OF ne, of s None] by (simp add: em qty_q_sum)
  from lot1 lot2 d ge eq show ?thesis by blast
qed

text \<open>The hypotheses of C2 hold for the second row of \<open>glitch_rows\<close>.\<close>

theorem daywise_sum_vs_cumulative_witness:
  "example_row ''02/Jan/25'' 5 \<in> set glitch_rows \<and>
   strptime_dby (a_date (example_row ''02/Jan/25'' 5)) = Some (2025, 1, 2) \<and>
   combo_key_of (example_row ''02/Jan/25'' 5) = (str_upper ''A1'', ''100'', ''red'') \<and>
   qty Cutting (actual (snd (last (key_rows_upto (str_upper ''A1'', ''100'', ''red'') (2025, 1, 2) glitch_rows))))
     \<le> qty Cutting (q_sum (map actual (emitted_upto (str_upper ''A1'', ''100'', ''red'') (2025, 1, 2) glitch_rows)))"
proof -
  have h1: "example_row ''02/Jan/25'' 5 \<in> set glitch_rows" by (simp add: glitch_rows_def)
  have h2: "strptime_dby (a_date (example_row ''02/Jan/25'' 5)) = Some (2025, 1, 2)" by code_simp
  have h3: "combo_key_of (example_row ''02/Jan/25'' 5) = (str_upper ''A1'', ''100'', ''red'')" by code_simp
  from daywise_sum_vs_cumulative[OF h1 h2 h3, of Cutting] h1 h2 h3 show ?thesis by blast
qed

text \<open>
  Claim C2 as stated fails: for cumulative cutting 10 on 1 January and 5 on 2 January the
  second difference is replaced by 0, the emitted quantities are 10 and 0, and their sum 10
  up to 2 January is greater than the cumulative total 5 of that date, not less or equal.
\<close>

theorem daywise_sum_exceeds_after_clamp:
  "qty Cutting (q_sum (map actual (emitted_upto (str_upper ''A1'', ''100'', ''red'') (2025, 1, 2) glitch_rows))) = 10 \<and>
   qty Cutting (actual (snd (last (key_rows_upto (str_upper ''A1'', ''100'', ''red'') (2025, 1, 2) glitch_rows)))) = 5 \<and>
   map (cutting \<circ> actual) (convert_cumulative_to_daywise_quantities_for_daily_prod glitch_rows) = [10, 0]"
  by code_simp

text \<open>
  The key takes no account of the case of accented letters either: the rows of
  \<open>accented_rows\<close> are of one lot, and the second emits the difference 5.
\<close>

lemma accented_rows_are_one_lot:
  "same_tracking_key (accented_rows ! 0) (accented_rows ! 1) \<and>
   map (cutting \<circ> actual) (convert_cumulative_to_daywise_quantities_for_daily_prod accented_rows)
     = [10, 5]"
  by code_simp

text \<open>
  Claim C10. When every input row has non-negative stage quantities, so has every emitted
  row. The emitted rows are the rows whose date parses, in the order of processing (by
  date, rows of one date in input order), each with its style, purchase order, colour and
  date. A row is a first occurrence when no row processed before it has the same style
  without regard to case, the same purchase order and the same colour without regard to
  case; it is emitted with its quantities unchanged. Any other row is emitted, per stage,
  with its quantity minus that of the last such row processed before it, a negative
  difference replaced by 0.
\<close>

theorem daywise_quantities_nonneg:
  "((\<forall>row \<in> set inp. nonneg (actual row)) \<longrightarrow>
      (\<forall>r \<in> set (convert_cumulative_to_daywise_quantities_for_daily_prod inp).
         nonneg (actual r))) \<and>
   map (\<lambda>r. (a_style_no r, a_po r, a_colour r, a_date r, a_source_sheet r, a_source_row r))
     (convert_cumulative_to_daywise_quantities_for_daily_prod inp)
   = map (\<lambda>dr. (a_style_no (snd dr), a_po (snd dr), a_colour (snd dr), a_date (snd dr),
               a_source_sheet (snd dr), a_source_row (snd dr))) (dated_rows inp) \<and>
   (\<forall>i < length (dated_rows inp).
      (earlier_rows inp i = [] \<longrightarrow>
         actual (convert_cumulative_to_daywise_quantities_for_daily_prod inp ! i)
           = actual (snd (dated_rows inp ! i))) \<and>
      (earlier_rows inp i \<noteq> [] \<longrightarrow>
         (\<forall>s. qty s (actual (convert_cumulative_to_daywise_quantities_for_daily_prod inp ! i))
              = max 0 (qty s (actual (snd (dated_rows inp ! i)))
                       - qty s (actual (snd (last (earlier_rows inp i))))))))"
proof -
  let ?xs = "dated_rows inp"
  let ?out = "convert_cumulative_to_daywise_quantities_for_daily_prod inp"
  have a: "\<forall>r \<in> set ?out. nonneg (actual r)" if h: "\<forall>row \<in> set inp. nonneg (actual row)"
  proof -
    have "\<forall>dr \<in> set ?xs. nonneg (actual (snd dr))"
      using h by (auto simp: set_dated_rows)
    from convert_loop_nonneg[OF this] show ?thesis
      by (simp add: convert_cumulative_to_daywise_quantities_for_daily_prod_def)
  qed
  have b: "map (\<lambda>r. (a_style_no r, a_po r, a_colour r, a_date r, a_source_sheet r, a_source_row r))
             ?out
           = map (\<lambda>dr. (a_style_no (snd dr), a_po (snd dr), a_colour (snd dr), a_date (snd dr),
                       a_source_sheet (snd dr), a_source_row (snd dr))) ?xs"
    by (simp only: convert_cumulative_to_daywise_quantities_for_daily_prod_def labels_convert_loop)
  have c: "(earlier_rows inp i = [] \<longrightarrow> actual (?out ! i) = actual (snd (?xs ! i))) \<and>
           (earlier_rows inp i \<noteq> [] \<longrightarrow>
              (\<forall>s. qty s (actual (?out ! i))
                   = max 0 (qty s (actual (snd (?xs ! i)))
                            - qty s (actual (snd (last (earlier_rows inp i)))))))"
    if i: "i < length ?xs" for i
  proof -
    let ?k = "combo_key_of (snd (?xs ! i))"
    have e: "earlier_rows inp i = filter (\<lambda>dr. combo_key_of (snd dr) = ?k) (take i ?xs)"
      by (simp add: earlier_rows_def combo_key_of_eq_iff)
    have out: "actual (?out ! i)
                 = daywise (actual (snd (?xs ! i))) (snd (convert_loop Map.empty (take i ?xs)) ?k)"
      unfolding convert_cumulative_to_daywise_quantities_for_daily_prod_def
      by (simp only: nth_convert_loop[OF i] actual_emitted)
    show ?thesis
      unfolding out snd_convert_loop_key[of Map.empty "take i ?xs" ?k] e[symmetric]
      by (simp add: daywise_None qty_daywise_Some)
  qed
  from a b c show ?thesis by blast
qed

text \<open>
  The hypotheses of C10 hold for \<open>falling_rows\<close>: its first row is a first occurrence, and
  its third row comes after two rows of its lot.
\<close>

theorem daywise_quantities_nonneg_witness:
  "list_all (\<lambda>row. nonneg (actual row)) falling_rows \<and>
   list_all (\<lambda>r. nonneg (actual r))
     (convert_cumulative_to_daywise_quantities_for_daily_prod falling_rows) \<and>
   map (cutting \<circ> actual) (convert_cumulative_to_daywise_quantities_for_daily_prod falling_rows)
     = [10, 0, 0] \<and>
   earlier_rows falling_rows 0 = [] \<and>
   actual (convert_cumulative_to_daywise_quantities_for_daily_prod falling_rows ! 0)
     = actual (snd (dated_rows falling_rows ! 0)) \<and>
   map (cutting \<circ> actual \<circ> snd) (earlier_rows falling_rows 2) = [10, 5] \<and>
   qty Cutting (actual (convert_cumulative_to_daywise_quantities_for_daily_prod falling_rows ! 2))
     = max 0 (3 - 5)"
proof -
  have h: "\<forall>row \<in> set falling_rows. nonneg (actual row)" by code_simp
  have e: "map (cutting \<circ> actual)
      (convert_cumulative_to_daywise_quantities_for_daily_prod falling_rows) = [10, 0, 0]"
    by code_simp
  have l0: "0 < length (dated_rows falling_rows)" and l2: "2 < length (dated_rows falling_rows)"
    by code_simp+
  have e0: "earlier_rows falling_rows 0 = []" by code_simp
  have e2: "map (cutting \<circ> actual \<circ> snd) (earlier_rows falling_rows 2) = [10, 5]" by code_simp
  then have ne2: "earlier_rows falling_rows 2 \<noteq> []" by auto
  have v: "qty Cutting (actual (snd (dated_rows falling_rows ! 2))) = 3"
          "qty Cutting (actual (snd (last (earlier_rows falling_rows 2)))) = 5"
    by code_simp+
  note t = daywise_quantities_nonneg[of falling_rows]
  note t1 = t[THEN conjunct1, THEN mp, OF h]
  note t3 = t[THEN conjunct2, THEN conjunct2]
  note first = t3[THEN spec, of 0, THEN mp, OF l0, THEN conjunct1, THEN mp, OF e0]
  note third = t3[THEN spec, of 2, THEN mp, OF l2, THEN conjunct2, THEN mp, OF ne2,
      THEN spec, of Cutting]
  from t1 h e e0 e2 first third v show ?thesis by (simp add: list_all_iff)
qed

lemma snd_convert_loop_snoc:
  "snd (convert_loop prev (xs @ [dr])) (combo_key_of (snd dr)) = Some (fst dr, actual (snd dr))"
  by (simp add: convert_loop_append snd_convert_loop_Cons snd_convert_step)

lemma last_convert_loop_snoc:
  "last (fst (convert_loop prev (xs @ [dr]))) = fst (convert_step (snd (convert_loop prev xs)) dr)"
  by (simp add: convert_loop_append fst_convert_loop_Cons)

text \<open>
  Claim C7, as the code has it. After a row is processed the dictionary holds, for the row's
  key, the row's own cumulative quantities (and its date), whatever was emitted for it. So
  when \<open>r2\<close> and \<open>r3\<close> are consecutive occurrences of a key (the same style without regard
  to case, the same purchase order, the same colour without regard to case, and no such
  row between them), the quantities emitted for \<open>r3\<close> are, per stage, its cumulative value
  minus the cumulative value of \<open>r2\<close>, with a negative difference replaced by 0, whether or
  not the quantities emitted for \<open>r2\<close> were clamped.
\<close>

theorem snapshot_is_original_cumulative:
  "snd (convert_loop prev (xs @ [(d, row)])) (combo_key_of row) = Some (d, actual row) \<and>
   (same_tracking_key r2 r3 \<and> (\<forall>x \<in> set ys. \<not> same_tracking_key (snd x) r3) \<longrightarrow>
      (\<forall>s. qty s (actual (last (fst (convert_loop prev (xs @ (d2, r2) # ys @ [(d3, r3)])))))
            = max 0 (qty s (actual r3) - qty s (actual r2))))"
proof -
  have a: "snd (convert_loop prev (xs @ [(d, row)])) (combo_key_of row) = Some (d, actual row)"
    using snd_convert_loop_snoc[of prev xs "(d, row)"] by simp
  have b: "\<forall>s. qty s (actual (last (fst (convert_loop prev (xs @ (d2, r2) # ys @ [(d3, r3)])))))
            = max 0 (qty s (actual r3) - qty s (actual r2))"
    if k': "same_tracking_key r2 r3"
      and o': "\<forall>x \<in> set ys. \<not> same_tracking_key (snd x) r3"
  proof -
    have k: "combo_key_of r2 = combo_key_of r3" using k' by (simp add: combo_key_of_eq_iff)
    have o: "\<forall>x \<in> set ys. combo_key_of (snd x) \<noteq> combo_key_of r3"
      using o' by (simp add: combo_key_of_eq_iff)
    have split: "xs @ (d2, r2) # ys @ [(d3, r3)] = ((xs @ [(d2, r2)]) @ ys) @ [(d3, r3)]" by simp
    have "snd (convert_loop prev ((xs @ [(d2, r2)]) @ ys)) (combo_key_of r3)
          = snd (convert_loop prev (xs @ [(d2, r2)])) (combo_key_of r3)"
      using snd_convert_loop_other[OF o] by (simp only: convert_loop_append[of prev "xs @ [(d2, r2)]" ys] snd_conv)
    also have "\<dots> = Some (d2, actual r2)"
      using snd_convert_loop_snoc[of prev xs "(d2, r2)"] k by simp
    finally show ?thesis
      unfolding split last_convert_loop_snoc by (simp add: actual_emitted qty_daywise_Some)
  qed
  from a b show ?thesis by blast
qed

text \<open>The hypothesis of C7 holds for cumulative cutting 10, 5, 12 on three days.\<close>

theorem snapshot_is_original_cumulative_witness:
  "same_tracking_key (example_row ''02/Jan/25'' 5) (example_row ''03/Jan/25'' 12) \<and>
   qty Cutting (actual (last (fst (convert_loop Map.empty
       [((2025, 1, 1), example_row ''01/Jan/25'' 10),
        ((2025, 1, 2), example_row ''02/Jan/25'' 5),
        ((2025, 1, 3), example_row ''03/Jan/25'' 12)])))) = 7"
proof -
  have h: "same_tracking_key (example_row ''02/Jan/25'' 5) (example_row ''03/Jan/25'' 12) \<and>
   (\<forall>x \<in> set ([] :: (date \<times> prod_row) list).
      \<not> same_tracking_key (snd x) (example_row ''03/Jan/25'' 12))"
    by (simp add: same_tracking_key_def example_row_def)
  have v: "max 0 (qty Cutting (actual (example_row ''03/Jan/25'' 12))
             - qty Cutting (actual (example_row ''02/Jan/25'' 5))) = 7"
    by (simp add: example_row_def)
  note t = snapshot_is_original_cumulative[of Map.empty
      "[((2025, 1, 1), example_row ''01/Jan/25'' 10)]"
      "(2025, 1, 1)" "example_row ''01/Jan/25'' 10" "example_row ''02/Jan/25'' 5"
      "example_row ''03/Jan/25'' 12" "[]" "(2025, 1, 2)" "(2025, 1, 3)",
      THEN conjunct2, rule_format, OF h, of Cutting]
  from t v h show ?thesis by simp
qed

text \<open>
  Claim C7 as stated fails: for cumulative cutting 10, 5, 3 on three days the quantity
  emitted for the third row is 0, not 3 - 5.
\<close>

theorem third_delta_is_clamped:
  "map (cutting \<circ> actual) (convert_cumulative_to_daywise_quantities_for_daily_prod falling_rows)
     = [10, 0, 0] \<and>
   cutting (actual (convert_cumulative_to_daywise_quantities_for_daily_prod falling_rows ! 2))
     \<noteq> cutting (actual (falling_rows ! 2)) - cutting (actual (falling_rows ! 1))"
  by code_simp

section \<open>Properties of the matcher and of the pruner\<close>

lemma organize_Nil: "organize kf df [] = []"
  by (simp add: organize_def)

lemma organize_snoc:
  "organize kf df (rows @ [x]) = add_to_combo (kf x) (df x) x (organize kf df rows)"
  by (simp add: organize_def)

lemma add_to_combo_alt:
  "add_to_combo k d x m = AList.update k (AList.update d x (dates_of m k)) m"
  by (simp add: add_to_combo_def dates_of_def split: option.splits)

lemma dates_of_add_to_combo:
  "dates_of (add_to_combo k' d' x m) k =
     (if k = k' then AList.update d' x (dates_of m k') else dates_of m k)"
  by (simp add: add_to_combo_alt) (simp add: dates_of_def update_conv')

lemma keys_add_to_combo: "fst ` set (add_to_combo k d x m) = insert k (fst ` set m)"
  by (simp add: add_to_combo_alt dom_update)

lemma distinct_add_to_combo:
  "distinct (map fst m) \<Longrightarrow> distinct (map fst (add_to_combo k d x m))"
  by (simp add: add_to_combo_alt distinct_update)

lemma keys_organize: "fst ` set (organize kf df rows) = kf ` set rows"
  by (induction rows rule: rev_induct) (auto simp: organize_Nil organize_snoc keys_add_to_combo)

lemma distinct_organize: "distinct (map fst (organize kf df rows))"
  by (induction rows rule: rev_induct) (simp_all add: organize_Nil organize_snoc distinct_add_to_combo)

lemma dates_of_organize:
  "map_of (dates_of (organize kf df rows) k) d =
     List.find (\<lambda>r. kf r = k \<and> df r = d) (rev rows)"
proof (induction rows rule: rev_induct)
  case Nil
  then show ?case by (simp add: organize_Nil dates_of_def)
next
  case (snoc x rows)
  then show ?case
    by (auto simp: organize_snoc dates_of_add_to_combo update_conv')
qed

lemma date_strings_of_organize:
  "d \<in> fst ` set (dates_of (organize kf df rows) k) \<longleftrightarrow> (\<exists>r \<in> set rows. kf r = k \<and> df r = d)"
proof -
  have "d \<in> fst ` set (dates_of (organize kf df rows) k) \<longleftrightarrow>
        map_of (dates_of (organize kf df rows) k) d \<noteq> None"
    by (simp add: map_of_eq_None_iff)
  also have "\<dots> \<longleftrightarrow> (\<exists>r \<in> set rows. kf r = k \<and> df r = d)"
    by (auto simp: dates_of_organize find_None_iff)
  finally show ?thesis .
qed

lemma parsed_dates_eq:
  "map fst (List.map_filter
       (\<lambda>date_str. map_option (\<lambda>date_obj. (date_str, date_obj)) (strptime_dby date_str)) ds)
   = filter (\<lambda>s. strptime_dby s \<noteq> None) ds"
  by (induction ds) (auto split: option.splits)

lemma set_sorted_dates: "set (sorted_dates ds) = {s \<in> set ds. strptime_dby s \<noteq> None}"
proof -
  have "set (sorted_dates ds) = set (map fst (List.map_filter
       (\<lambda>date_str. map_option (\<lambda>date_obj. (date_str, date_obj)) (strptime_dby date_str)) ds))"
    by (simp add: sorted_dates_def)
  then show ?thesis by (simp only: parsed_dates_eq) auto
qed

lemma distinct_sorted_dates: "distinct ds \<Longrightarrow> distinct (sorted_dates ds)"
proof -
  assume d: "distinct ds"
  let ?xs = "List.map_filter
       (\<lambda>date_str. map_option (\<lambda>date_obj. (date_str, date_obj)) (strptime_dby date_str)) ds"
  have "distinct (map fst ?xs)" using d by (simp only: parsed_dates_eq) simp
  then have "distinct ?xs \<and> inj_on fst (set ?xs)" by (simp add: distinct_map)
  then have "distinct (map fst (sort_key snd ?xs))" by (simp add: distinct_map)
  then show ?thesis by (simp add: sorted_dates_def)
qed

lemma rows_for_combo_alt:
  "rows_for_combo slot style pbc abc k =
     map (matched_row_for style k (dates_of pbc k) (dates_of abc k))
       (sorted_dates (sort_key (slot k)
          (remdups (map fst (dates_of pbc k) @ map fst (dates_of abc k)))))"
  by (simp add: rows_for_combo_def dates_of_def Let_def)

lemma set_rows_for_combo:
  "r \<in> set (rows_for_combo slot style pbc abc k) \<longleftrightarrow>
     (\<exists>d. (d \<in> fst ` set (dates_of pbc k) \<or> d \<in> fst ` set (dates_of abc k)) \<and>
          strptime_dby d \<noteq> None \<and>
          r = matched_row_for style k (dates_of pbc k) (dates_of abc k) d)"
  by (auto simp: rows_for_combo_alt set_sorted_dates)

lemma matched_row_for_simps:
  "m_po (matched_row_for style k pd ad d) = fst k"
  "m_colour (matched_row_for style k pd ad d) = snd k"
  "m_date (matched_row_for style k pd ad d) = d"
  "m_style_no (matched_row_for style k pd ad d) = style"
  "m_planned (matched_row_for style k pd ad d) =
     (case map_of pd d of Some plan_row \<Rightarrow> planned plan_row | None \<Rightarrow> q_zero)"
  "m_actual (matched_row_for style k pd ad d) =
     (case map_of ad d of Some actual_row \<Rightarrow> actual actual_row | None \<Rightarrow> q_zero)"
  by (simp_all add: matched_row_for_def)

lemma matched_key_row_for: "matched_key (matched_row_for style k pd ad d) = k"
  by (simp add: matched_key_def matched_row_for_simps)

lemma set_concat_map: "r \<in> set (concat (map f ks)) \<longleftrightarrow> (\<exists>k \<in> set ks. r \<in> set (f k))"
  by auto

lemma plan_combo_keys:
  "set (sort (map fst (organize plan_key p_date rows))) = plan_key ` set rows"
  using keys_organize[of plan_key p_date rows] by simp

lemma set_match:
  "r \<in> set (match_plan_with_actual slot plan act style) \<longleftrightarrow>
     (\<exists>k \<in> plan_key ` set (plan_for_style plan style). \<exists>d.
        ((\<exists>row \<in> set (plan_for_style plan style). plan_key row = k \<and> p_date row = d) \<or>
         (\<exists>row \<in> set (actual_for_style act style). actual_key row = k \<and> a_date row = d)) \<and>
        strptime_dby d \<noteq> None \<and>
        r = matched_row_for style k
              (dates_of (organize plan_key p_date (plan_for_style plan style)) k)
              (dates_of (organize actual_key a_date (actual_for_style act style)) k) d)"
  unfolding match_plan_with_actual_def Let_def set_concat_map plan_combo_keys
    set_rows_for_combo date_strings_of_organize
  by (rule refl)


lemma match_row_for_plan_row:
  assumes "row \<in> set (plan_for_style plan style)" and "strptime_dby (p_date row) \<noteq> None"
  shows "\<exists>r \<in> set (match_plan_with_actual slot plan act style).
           matched_key r = plan_key row \<and> m_date r = p_date row"
proof -
  let ?r = "matched_row_for style (plan_key row)
              (dates_of (organize plan_key p_date (plan_for_style plan style)) (plan_key row))
              (dates_of (organize actual_key a_date (actual_for_style act style)) (plan_key row))
              (p_date row)"
  have "?r \<in> set (match_plan_with_actual slot plan act style)"
    unfolding set_match using assms by blast
  moreover have "matched_key ?r = plan_key row \<and> m_date ?r = p_date row"
    by (simp add: matched_key_row_for matched_row_for_simps)
  ultimately show ?thesis by blast
qed




lemma distinct_concat_keyed:
  "distinct ks \<Longrightarrow>
   (\<And>k. k \<in> set ks \<Longrightarrow> distinct (map g (f k)) \<and> (\<forall>r \<in> set (f k). fst (g r) = k)) \<Longrightarrow>
   distinct (map g (concat (map f ks)))"
proof (induction ks)
  case Nil
  then show ?case by simp
next
  case (Cons k ks)
  have "distinct (map g (concat (map f ks)))" using Cons by simp
  moreover have "distinct (map g (f k))" using Cons.prems(2)[of k] by simp
  moreover have "g ` set (f k) \<inter> g ` (\<Union>x\<in>set ks. set (f x)) = {}"
  proof -
    have "fst (g a) \<noteq> fst (g b)" if "a \<in> set (f k)" "k' \<in> set ks" "b \<in> set (f k')" for a b k'
      using Cons.prems(2)[of k] Cons.prems(2)[of k'] Cons.prems(1) that by auto
    then show ?thesis by fastforce
  qed
  ultimately show ?case by simp
qed

lemma distinct_rows_for_combo:
  "distinct (map (\<lambda>r. (matched_key r, m_date r)) (rows_for_combo slot style pbc abc k))"
proof -
  have "map (\<lambda>r. (matched_key r, m_date r)) (rows_for_combo slot style pbc abc k) =
        map (\<lambda>d. (k, d)) (sorted_dates (sort_key (slot k)
          (remdups (map fst (dates_of pbc k) @ map fst (dates_of abc k)))))"
    by (simp add: rows_for_combo_alt matched_key_row_for matched_row_for_simps comp_def)
  moreover have "distinct (sorted_dates (sort_key (slot k)
          (remdups (map fst (dates_of pbc k) @ map fst (dates_of abc k)))))"
    by (rule distinct_sorted_dates) simp
  ultimately show ?thesis by (simp add: distinct_map inj_on_def)
qed

lemma key_rows_for_combo: "r \<in> set (rows_for_combo slot style pbc abc k) \<Longrightarrow> matched_key r = k"
  by (auto simp: rows_for_combo_alt matched_key_row_for)

lemma distinct_match:
  "distinct (map (\<lambda>r. (matched_key r, m_date r)) (match_plan_with_actual slot plan act style))"
  unfolding match_plan_with_actual_def Let_def
proof (rule distinct_concat_keyed)
  show "distinct (sort (map fst (organize plan_key p_date (plan_for_style plan style))))"
    by (simp add: distinct_organize)
next
  fix k
  show "distinct (map (\<lambda>r. (matched_key r, m_date r))
          (rows_for_combo slot style (organize plan_key p_date (plan_for_style plan style))
             (organize actual_key a_date (actual_for_style act style)) k)) \<and>
        (\<forall>r\<in>set (rows_for_combo slot style (organize plan_key p_date (plan_for_style plan style))
             (organize actual_key a_date (actual_for_style act style)) k).
            fst (matched_key r, m_date r) = k)"
    by (simp add: distinct_rows_for_combo key_rows_for_combo)
qed

lemma quantities_in_match:
  assumes "r \<in> set (match_plan_with_actual slot plan act style)"
  shows "m_planned r =
           (case List.find (\<lambda>row. plan_key row = matched_key r \<and> p_date row = m_date r)
                   (rev (plan_for_style plan style)) of
              Some row \<Rightarrow> planned row | None \<Rightarrow> q_zero)"
    and "m_actual r =
           (case List.find (\<lambda>row. actual_key row = matched_key r \<and> a_date row = m_date r)
                   (rev (actual_for_style act style)) of
              Some row \<Rightarrow> actual row | None \<Rightarrow> q_zero)"
proof -
  from assms obtain k d where
    r: "r = matched_row_for style k
              (dates_of (organize plan_key p_date (plan_for_style plan style)) k)
              (dates_of (organize actual_key a_date (actual_for_style act style)) k) d"
    unfolding set_match by blast
  show "m_planned r =
           (case List.find (\<lambda>row. plan_key row = matched_key r \<and> p_date row = m_date r)
                   (rev (plan_for_style plan style)) of
              Some row \<Rightarrow> planned row | None \<Rightarrow> q_zero)"
    unfolding r by (simp add: matched_key_row_for matched_row_for_simps dates_of_organize)
  show "m_actual r =
           (case List.find (\<lambda>row. actual_key row = matched_key r \<and> a_date row = m_date r)
                   (rev (actual_for_style act style)) of
              Some row \<Rightarrow> actual row | None \<Rightarrow> q_zero)"
    unfolding r by (simp add: matched_key_row_for matched_row_for_simps dates_of_organize)
qed

text \<open>
  Claim C9: every matched row carries the planned quantities of the last plan row of the
  style, in input order, with its key and its date string, and the actual quantities of
  the last such actual row (zero where there is none): earlier rows of the same key and
  date are overwritten, not summed. There is one matched row at most for a key and a date
  string, and there is one for every plan row of the style whose date parses.
\<close>

theorem last_row_of_key_and_date_wins:
  "(\<forall>r \<in> set (match_plan_with_actual slot plan act style).
      m_planned r =
        (case List.find (\<lambda>row. plan_key row = matched_key r \<and> p_date row = m_date r)
                (rev (plan_for_style plan style)) of
           Some row \<Rightarrow> planned row | None \<Rightarrow> q_zero) \<and>
      m_actual r =
        (case List.find (\<lambda>row. actual_key row = matched_key r \<and> a_date row = m_date r)
                (rev (actual_for_style act style)) of
           Some row \<Rightarrow> actual row | None \<Rightarrow> q_zero)) \<and>
   distinct (map (\<lambda>r. (matched_key r, m_date r)) (match_plan_with_actual slot plan act style)) \<and>
   (\<forall>row \<in> set (plan_for_style plan style). strptime_dby (p_date row) \<noteq> None \<longrightarrow>
      (\<exists>r \<in> set (match_plan_with_actual slot plan act style).
         matched_key r = plan_key row \<and> m_date r = p_date row))"
  using quantities_in_match[of _ slot plan act style] distinct_match[of slot plan act style]
    match_row_for_plan_row[of _ plan style slot act]
  by blast

text \<open>The hypotheses of C9 hold for the matched row of \<open>small_plan\<close> and \<open>small_actual\<close>.\<close>

theorem last_row_of_key_and_date_wins_witness:
  "map (\<lambda>r. (matched_key r, m_date r, cutting (m_planned r), cutting (m_actual r)))
     (match_plan_with_actual insertion_order small_plan small_actual ''A1'')
     = [((''100'', ''red''), ''01/Jan/25'', 7, 4)] \<and>
   m_planned (hd (match_plan_with_actual insertion_order small_plan small_actual ''A1''))
     = planned (example_plan_row ''01/Jan/25'' 7) \<and>
   m_actual (hd (match_plan_with_actual insertion_order small_plan small_actual ''A1''))
     = actual (example_row ''01/Jan/25'' 4)"
proof -
  let ?out = "match_plan_with_actual insertion_order small_plan small_actual ''A1''"
  have e: "map (\<lambda>r. (matched_key r, m_date r, cutting (m_planned r), cutting (m_actual r))) ?out
     = [((''100'', ''red''), ''01/Jan/25'', 7, 4)]"
    by code_simp
  then have mem: "hd ?out \<in> set ?out" by (cases ?out) auto
  have k: "matched_key (hd ?out) = (''100'', ''red'')" "m_date (hd ?out) = ''01/Jan/25''"
    using e by (cases ?out; simp)+
  have fp: "List.find (\<lambda>row. plan_key row = (''100'', ''red'') \<and> p_date row = ''01/Jan/25'')
              (rev (plan_for_style small_plan ''A1'')) = Some (example_plan_row ''01/Jan/25'' 7)"
    by code_simp
  have fa: "List.find (\<lambda>row. actual_key row = (''100'', ''red'') \<and> a_date row = ''01/Jan/25'')
              (rev (actual_for_style small_actual ''A1'')) = Some (example_row ''01/Jan/25'' 4)"
    by code_simp
  from last_row_of_key_and_date_wins[of insertion_order small_plan small_actual "''A1''", THEN conjunct1,
      rule_format, OF mem]
  have "m_planned (hd ?out) = planned (example_plan_row ''01/Jan/25'' 7)"
    and "m_actual (hd ?out) = actual (example_row ''01/Jan/25'' 4)"
    by (simp_all add: k fp fa)
  with e show ?thesis by blast
qed

text \<open>
  Claim C4 against the code: the pruner tests the sum of the ten quantities. A plan sheet
  with planned cutting -5 (plan ingestion stores a negative cell as it is) and a day of
  production with actual cutting 5 give one matched row with these two quantities, and the
  pruner deletes it although two of its ten quantities are not zero.
\<close>

theorem delete_empty_rows_drops_cancelling_row:
  "map (\<lambda>r. (m_po r, m_colour r, m_date r, cutting (m_planned r), cutting (m_actual r)))
     cancelling_matched = [(''100'', ''red'', ''01/Jan/25'', - 5, 5)] \<and>
   delete_empty_rows cancelling_matched = []"
  by code_simp

text \<open>For a row without negative quantities the sum is zero only when all ten are.\<close>

lemma delete_empty_rows_nonneg:
  assumes "nonneg (m_planned row)" and "nonneg (m_actual row)"
  shows "row \<in> set (delete_empty_rows rows) \<longleftrightarrow> row \<in> set rows \<and> \<not> all_zero row"
proof -
  have "total_quantity row = 0 \<longleftrightarrow> all_zero row"
    using assms
    by (cases "m_planned row"; cases "m_actual row")
       (auto simp: total_quantity_def all_zero_def nonneg_def q_zero_def)
  then show ?thesis by (simp add: delete_empty_rows_def)
qed

section \<open>Properties of the aggregator\<close>









lemma new_row_simps:
  "g_style_no (new_row st row d) = m_style_no row"
  "g_po (new_row st row d) = m_po row"
  "g_colour (new_row st row d) = m_colour row"
  "g_date (new_row st row d) = m_date row"
  "g_cum_planned (new_row st row d) = current_date_cumulative_planned st"
  "g_cum_actual (new_row st row d) = current_date_cumulative_actual st"
  "g_cum_diff (new_row st row d)
     = q_sub (current_date_cumulative_actual st) (current_date_cumulative_planned st)"
  by (simp_all add: new_row_def)

lemma agg_loop_Cons:
  "agg_loop all st (rd # rest) =
     new_row (enter_date all st (snd rd)) (fst rd) (snd rd)
       # agg_loop all (enter_date all st (snd rd)) rest"
  by (simp add: Let_def)

declare agg_loop.simps(2) [simp del]




lemma agg_loop_dates:
  "map g_date (agg_loop all st rows) = map (\<lambda>rd. m_date (fst rd)) rows"
  by (induction rows arbitrary: st) (simp_all add: agg_loop_Cons new_row_simps)

lemma agg_loop_diff:
  "\<forall>r \<in> set (agg_loop all st rows). g_cum_diff r = q_sub (g_cum_actual r) (g_cum_planned r)"
  by (induction rows arbitrary: st) (simp_all add: agg_loop_Cons new_row_simps)











lemma process_group_diff:
  "\<forall>r \<in> set (process_group rs). g_cum_diff r = q_sub (g_cum_actual r) (g_cum_planned r)"
  by (simp add: process_group_def Let_def agg_loop_diff)

lemma in_add_cumulative:
  "r \<in> set (add_cumulative_columns_to_matched_dict matched_data) \<Longrightarrow>
   \<exists>k rs. (k, rs) \<in> set (group_rows matched_data) \<and> r \<in> set (process_group rs)"
proof -
  assume "r \<in> set (add_cumulative_columns_to_matched_dict matched_data)"
  then have "r \<in> set (concat (map (\<lambda>group. process_group (snd group)) (group_rows matched_data)))"
    by (simp add: add_cumulative_columns_to_matched_dict_def split: if_splits)
  then obtain g where "g \<in> set (group_rows matched_data)" "r \<in> set (process_group (snd g))"
    by auto
  then have "(fst g, snd g) \<in> set (group_rows matched_data) \<and> r \<in> set (process_group (snd g))"
    by simp
  then show ?thesis by blast
qed

text \<open>
  Claim C3: in every row returned by the aggregator, for each of the five stages, the
  cumulative variance equals the cumulative actual total minus the cumulative planned
  total.
\<close>

theorem cumulative_variance_is_difference:
  "\<forall>r \<in> set (add_cumulative_columns_to_matched_dict matched_data).
     \<forall>s. qty s (g_cum_diff r) = qty s (g_cum_actual r) - qty s (g_cum_planned r)"
proof (intro ballI allI)
  fix r s
  assume "r \<in> set (add_cumulative_columns_to_matched_dict matched_data)"
  from in_add_cumulative[OF this] obtain rs where "r \<in> set (process_group rs)" by blast
  with process_group_diff have "g_cum_diff r = q_sub (g_cum_actual r) (g_cum_planned r)" by blast
  then show "qty s (g_cum_diff r) = qty s (g_cum_actual r) - qty s (g_cum_planned r)"
    by (simp add: qty_q_sub)
qed

text \<open>C3 at the first row of the report for \<open>report_rows\<close>.\<close>

theorem cumulative_variance_is_difference_witness:
  "map (\<lambda>r. (cutting (g_cum_planned r), cutting (g_cum_actual r), cutting (g_cum_diff r)))
     (add_cumulative_columns_to_matched_dict report_rows) = [(50, 30, - 20), (50, 55, 5)] \<and>
   qty Cutting (g_cum_diff (hd (add_cumulative_columns_to_matched_dict report_rows)))
     = qty Cutting (g_cum_actual (hd (add_cumulative_columns_to_matched_dict report_rows)))
       - qty Cutting (g_cum_planned (hd (add_cumulative_columns_to_matched_dict report_rows)))"
proof -
  let ?out = "add_cumulative_columns_to_matched_dict report_rows"
  have e: "map (\<lambda>r. (cutting (g_cum_planned r), cutting (g_cum_actual r), cutting (g_cum_diff r)))
     ?out = [(50, 30, - 20), (50, 55, 5)]"
    by code_simp
  then have mem: "hd ?out \<in> set ?out" by (cases ?out) auto
  from cumulative_variance_is_difference[of report_rows, THEN bspec, OF mem, THEN spec, of Cutting] e
  show ?thesis by blast
qed














section \<open>Properties of the two ingestion functions\<close>

lemma plan_quantity_fill_blank: "plan_quantity s n (fill_blank c) = plan_quantity s n c"
  by (cases c) (simp_all add: fill_blank_def)

lemma process_quantity_fill_blank:
  "process_quantity sheet n (fill_blank c) col = process_quantity sheet n c col"
  by (cases c) (simp_all add: fill_blank_def)

lemma plan_quantities_fill_blank:
  "plan_quantities n (quantity_cells (fill_blank_plan_row row)) = plan_quantities n (quantity_cells row)"
  by (simp add: plan_quantities_def fill_blank_plan_row_def plan_quantity_fill_blank)

lemma fill_blank_plan_row_simps:
  "style_cell (fill_blank_plan_row row) = style_cell row"
  "po_cell (fill_blank_plan_row row) = po_cell row"
  "colour_cell (fill_blank_plan_row row) = colour_cell row"
  "date_value (fill_blank_plan_row row) = date_value row"
  by (simp_all add: fill_blank_plan_row_def)

lemma is_blank_fill_blank: "is_blank_plan_row (fill_blank_plan_row row) = is_blank_plan_row row"
  by (simp add: is_blank_plan_row_def fill_blank_plan_row_simps)

lemma last_non_blank_index_fill:
  "last_non_blank_index (map fill_blank_plan_row df) = last_non_blank_index df"
proof -
  have "filter (\<lambda>index. \<not> is_blank_plan_row (map fill_blank_plan_row df ! index)) (rev [0..<length df])
      = filter (\<lambda>index. \<not> is_blank_plan_row (df ! index)) (rev [0..<length df])"
    by (rule filter_cong) (simp_all add: is_blank_fill_blank)
  then show ?thesis by (simp add: last_non_blank_index_def)
qed

lemma year_below_fill:
  "year_below parse (map fill_blank_plan_row df) index = year_below parse df index"
  by (simp add: year_below_def fill_blank_plan_row_simps)

lemma resolve_date_fill:
  "resolve_date parse (map fill_blank_plan_row df) index parsed cell
     = resolve_date parse df index parsed cell"
  by (simp only: resolve_date_def year_below_fill)

lemma plan_step_fill:
  assumes "index < length df"
  shows "plan_step parse style (map fill_blank_plan_row df) st index
           = plan_step parse style df st index"
proof -
  have nth: "map fill_blank_plan_row df ! index = fill_blank_plan_row (df ! index)"
    using assms by simp
  show ?thesis
    unfolding plan_step_def Let_def nth is_blank_fill_blank last_non_blank_index_fill resolve_date_fill
      plan_quantities_fill_blank fill_blank_plan_row_simps
    by (rule refl)
qed

lemma plan_ingest_fill:
  "plan_ingest parse (map fill_blank_plan_row df) style = plan_ingest parse df style"
  unfolding plan_ingest_def
  by (rule foldl_cong) (simp_all add: plan_step_fill)

lemma fill_blank_prod_row_simps:
  "r_po_cell (fill_blank_prod_row row) = r_po_cell row"
  "r_style_cell (fill_blank_prod_row row) = r_style_cell row"
  "r_colour_cell (fill_blank_prod_row row) = r_colour_cell row"
  "r_order (fill_blank_prod_row row) = fill_blank (r_order row)"
  "r_cutting (fill_blank_prod_row row) = fill_blank (r_cutting row)"
  "r_sewing (fill_blank_prod_row row) = fill_blank (r_sewing row)"
  "r_finishing (fill_blank_prod_row row) = fill_blank (r_finishing row)"
  "r_washing (fill_blank_prod_row row) = fill_blank (r_washing row)"
  "r_packing (fill_blank_prod_row row) = fill_blank (r_packing row)"
  by (simp_all add: fill_blank_prod_row_def)

lemma is_blank_prod_fill: "is_blank_prod_row (fill_blank_prod_row row) = is_blank_prod_row row"
  by (simp add: is_blank_prod_row_def fill_blank_prod_row_simps)

lemma last_non_blank_prod_index_fill:
  "last_non_blank_prod_index (map fill_blank_prod_row df) = last_non_blank_prod_index df"
proof -
  have "filter (\<lambda>index. \<not> is_blank_prod_row (map fill_blank_prod_row df ! index)) (rev [0..<length df])
      = filter (\<lambda>index. \<not> is_blank_prod_row (df ! index)) (rev [0..<length df])"
    by (rule filter_cong) (simp_all add: is_blank_prod_fill)
  then show ?thesis by (simp add: last_non_blank_prod_index_def)
qed

lemma prod_row_step_fill:
  assumes "index < length df"
  shows "prod_row_step sheet d (map fill_blank_prod_row df) st index
           = prod_row_step sheet d df st index"
proof -
  have nth: "map fill_blank_prod_row df ! index = fill_blank_prod_row (df ! index)"
    using assms by simp
  show ?thesis
    unfolding prod_row_step_def Let_def nth is_blank_prod_fill last_non_blank_prod_index_fill
      fill_blank_prod_row_simps process_quantity_fill_blank
    by (rule refl)
qed

lemma sheet_step_fill:
  "sheet_step parse_name st (fill_blank_sheet sheet) = sheet_step parse_name st sheet"
proof -
  have "foldl (prod_row_step (sheet_name sheet) d (map fill_blank_prod_row (sheet_rows sheet))) st
          [0..<length (sheet_rows sheet)]
        = foldl (prod_row_step (sheet_name sheet) d (sheet_rows sheet)) st
          [0..<length (sheet_rows sheet)]" for d
    by (rule foldl_cong) (simp_all add: prod_row_step_fill)
  then show ?thesis
    by (simp add: sheet_step_def fill_blank_sheet_def split: option.splits)
qed

lemma prod_ingest_fill:
  "prod_ingest parse_name (map fill_blank_sheet sheets) = prod_ingest parse_name sheets"
proof -
  have "foldl (sheet_step parse_name) st (map fill_blank_sheet sheets)
          = foldl (sheet_step parse_name) st sheets" for st
    by (induction sheets arbitrary: st) (simp_all add: sheet_step_fill)
  then show ?thesis by (simp add: prod_ingest_def)
qed

text \<open>
  Claim C8, as the code has it. In plan ingestion a blank quantity cell yields the value 0
  and neither an entry of \<open>decimal_quantities\<close> nor a printed message, and in actual
  ingestion a blank quantity cell yields 0 and no entry of \<open>quantity_warnings\<close>. In both
  functions a sheet with blank quantity cells gives the same rows and the same reports as
  the sheet with 0 written in those cells.
\<close>

theorem blank_quantity_is_silent_zero:
  "plan_quantity s n QBlank = (0, [], []) \<and>
   process_quantity sheet n QBlank col = (0, []) \<and>
   plan_ingest parse (map fill_blank_plan_row df) style = plan_ingest parse df style \<and>
   prod_ingest parse_name (map fill_blank_sheet sheets) = prod_ingest parse_name sheets"
  by (simp add: plan_ingest_fill prod_ingest_fill)

text \<open>
  Claim C8 as stated fails for the plan: the accepted row of \<open>blank_quantity_sheet\<close>, whose
  five quantity cells are blank, has five quantities 0 and nothing at all is reported for
  the sheet.
\<close>

theorem blank_plan_quantity_has_no_diagnostic:
  "map planned (get_row_wise_data_from_plan (\<lambda>s. None) blank_quantity_sheet ''A1'') = [q_zero] \<and>
   plan_diagnostics (\<lambda>s. None) blank_quantity_sheet ''A1'' = ([], [], [], [])"
  by code_simp

lemma split_on_no_sep: "c \<notin> set a \<Longrightarrow> split_on c a = [a]"
  by (induction a) auto

lemma split_on_sep: "c \<notin> set a \<Longrightarrow> split_on c (a @ c # rest) = a # split_on c rest"
  by (induction a) (auto split: list.splits)

lemma two_digits_facts:
  "\<forall>n \<in> set [0..99]. CHR ''/'' \<notin> set (two_digits n) \<and> parse_year2 (two_digits n) = Some (pivot_year n)"
  by code_simp

lemma day_facts:
  "\<forall>n \<in> set [1..31]. parse_day (two_digits n) = Some n"
  by code_simp

lemma month_facts:
  "\<forall>m \<in> set [1..12]. CHR ''/'' \<notin> set (month_abbr m) \<and> parse_month (month_abbr m) = Some m"
  by code_simp

lemma leap_facts: "\<forall>n \<in> set [0..99]. n mod 4 = 0 \<longrightarrow> is_leap (pivot_year n)"
  by code_simp

lemma leap_pivot:
  assumes "is_leap y"
  shows "is_leap (pivot_year (y mod 100))"
proof -
  have "y mod 4 = 0" using assms by (simp add: is_leap_def)
  moreover have "y mod 100 mod 4 = y mod 4" by (rule mod_mod_cancel) simp
  ultimately have a: "y mod 100 mod 4 = 0" by simp
  have b: "y mod 100 \<in> set [0..99]" by simp
  from leap_facts[THEN bspec, OF b, THEN mp, OF a] show ?thesis .
qed

lemma days_in_month_pivot: "days_in_month y m \<le> days_in_month (pivot_year (y mod 100)) m"
  using leap_pivot[of y] by (simp add: days_in_month_def)

lemma strptime_strftime:
  assumes "valid_date dt"
  shows "strptime_dby (strftime_dby dt)
           = Some (pivot_year (year_of dt mod 100), month_of dt, day_of dt)"
proof -
  obtain y m d where dt: "dt = (y, m, d)" by (cases dt)
  have v: "1 \<le> m" "m \<le> 12" "1 \<le> d" "d \<le> days_in_month y m"
    using assms by (simp_all add: valid_date_def dt year_of_def month_of_def day_of_def)
  have d31: "d \<le> 31" using v(4) by (simp add: days_in_month_def split: if_splits)
  have yy: "y mod 100 \<in> set [0..99]" by simp
  have dd: "d \<in> set [1..31]" using v(3) d31 by simp
  have mm: "m \<in> set [1..12]" using v by simp
  have dd0: "d \<in> set [0..99]" using v(3) d31 by simp
  note fy = two_digits_facts[rule_format, OF yy]
  note fd = day_facts[rule_format, OF dd] two_digits_facts[rule_format, OF dd0]
  note fm = month_facts[rule_format, OF mm]
  have sp: "split_on CHR ''/'' (strftime_dby (y, m, d))
              = [two_digits d, month_abbr m, two_digits (y mod 100)]"
    using fy fd fm by (simp add: strftime_dby_def split_on_sep split_on_no_sep)
  have "d \<le> days_in_month (pivot_year (y mod 100)) m"
    using v(4) days_in_month_pivot[of y m] by simp
  then show ?thesis
    using fy fd fm by (simp add: strptime_dby_def sp dt year_of_def month_of_def day_of_def)
qed

lemma state_before_0: "state_before parse style df 0 = empty_plan_state"
  by (simp add: state_before_def)

lemma state_before_Suc:
  "state_before parse style df (Suc i) = plan_step parse style df (state_before parse style df i) i"
  by (simp add: state_before_def)

lemma plan_ingest_state_before:
  "plan_ingest parse df style = state_before parse style df (length df)"
  by (simp add: plan_ingest_def state_before_def)

lemma plan_step_dated:
  assumes "date_value (df ! i) \<noteq> DBlank"
  shows "case fst (resolve_date parse df i (parsed_dates_with_indices st) (date_value (df ! i))) of
           None \<Rightarrow> row_dropped st (plan_step parse style df st i) i
         | Some d \<Rightarrow> row_accepted st (plan_step parse style df st i) i d"
  using assms
  by (auto simp: plan_step_def Let_def is_blank_plan_row_def row_dropped_def row_accepted_def
        split: date_cell.splits option.splits prod.splits)

lemma plan_step_undated:
  assumes "date_value (df ! i) = DBlank"
  shows "result_list (plan_step parse style df st i) = result_list st \<and>
         parsed_dates_with_indices (plan_step parse style df st i) = parsed_dates_with_indices st"
  using assms by (auto simp: plan_step_def Let_def)

lemma recorded_accepted:
  "accepted_rows_recorded st \<Longrightarrow> row_accepted st st' i d \<Longrightarrow> accepted_rows_recorded st'"
proof -
  assume a: "accepted_rows_recorded st" and r: "row_accepted st st' i d"
  have "map (\<lambda>r. (p_source_row r, p_date r)) (result_list st')
        = map (\<lambda>r. (p_source_row r, p_date r)) (result_list st @ [last (result_list st')])"
    using r by (simp add: row_accepted_def)
  then show ?thesis using a r by (simp add: accepted_rows_recorded_def row_accepted_def)
qed

lemma recorded_step:
  assumes "accepted_rows_recorded st"
  shows "accepted_rows_recorded (plan_step parse style df st i)"
proof (cases "date_value (df ! i) = DBlank")
  case True
  from plan_step_undated[OF True, where parse = parse and style = style and st = st] assms
  show ?thesis
    by (simp add: accepted_rows_recorded_def)
next
  case False
  note step = plan_step_dated[OF False, where parse = parse and style = style and st = st]
  show ?thesis
  proof (cases "fst (resolve_date parse df i (parsed_dates_with_indices st) (date_value (df ! i)))")
    case None
    with step have "row_dropped st (plan_step parse style df st i) i" by simp
    with assms show ?thesis by (simp add: accepted_rows_recorded_def row_dropped_def)
  next
    case (Some d)
    with step have "row_accepted st (plan_step parse style df st i) i d" by simp
    with assms show ?thesis by (rule recorded_accepted)
  qed
qed

lemma recorded_state_before: "accepted_rows_recorded (state_before parse style df i)"
proof (induction i)
  case 0
  show ?case by (simp add: state_before_0 accepted_rows_recorded_def empty_plan_state_def)
next
  case (Suc i)
  then show ?case by (simp only: state_before_Suc recorded_step)
qed

lemma resolve_date_suspicious:
  assumes "parse_cell parse cell = Some dp" and "suspicious dp"
  shows "fst (resolve_date parse df i parsed cell) =
           (case year_choice (year_above parsed) (year_below parse df i) of
              None \<Rightarrow> None
            | Some (y, src) \<Rightarrow> replace_year dp y)"
  using assms
  by (auto simp: resolve_date_def suspicious_def Let_def split: option.splits prod.splits)

lemma year_choice_adopted:
  "(case year_choice a b of None \<Rightarrow> None | Some (y, src) \<Rightarrow> f y)
     = (case adopted_year a b of None \<Rightarrow> None | Some y \<Rightarrow> f y)"
  by (cases a; cases b) (simp_all add: adopted_year_def)

lemma year_below_next: "year_below parse df i = next_row_year parse df i"
proof (cases "Suc i < length df")
  case True
  then have "drop (Suc i) df = df ! Suc i # drop (Suc (Suc i)) df"
    by (simp add: Cons_nth_drop_Suc)
  then show ?thesis using True by (simp add: year_below_def next_row_year_def)
next
  case False
  then show ?thesis by (simp add: year_below_def next_row_year_def)
qed

lemma year_above_accepted:
  assumes "accepted_rows_recorded st"
  shows "year_above (parsed_dates_with_indices st) = accepted_year_above st"
proof -
  have "length (parsed_dates_with_indices st) = length (result_list st)"
    using assms[unfolded accepted_rows_recorded_def] by (rule map_eq_imp_length_eq)
  then have "parsed_dates_with_indices st = [] \<longleftrightarrow> result_list st = []" by auto
  then show ?thesis by (simp add: year_above_def accepted_year_above_def)
qed

lemma replace_year_alt:
  "replace_year dp y =
     (if day_of dp \<le> days_in_month y (month_of dp) then Some (y, month_of dp, day_of dp) else None)"
  by (simp add: replace_year_def)

lemma suspicious_row_outcome:
  assumes "parse_cell parse (date_value (df ! i)) = Some dp" and "suspicious dp"
  shows "case adopted_year (accepted_year_above (state_before parse style df i))
                (next_row_year parse df i) of
           None \<Rightarrow> row_dropped (state_before parse style df i) (state_before parse style df (Suc i)) i
         | Some y \<Rightarrow>
             if day_of dp \<le> days_in_month y (month_of dp)
             then row_accepted (state_before parse style df i) (state_before parse style df (Suc i)) i
                    (y, month_of dp, day_of dp)
             else row_dropped (state_before parse style df i) (state_before parse style df (Suc i)) i"
proof -
  let ?st = "state_before parse style df i"
  have nb: "date_value (df ! i) \<noteq> DBlank" using assms(1) by auto
  have r: "fst (resolve_date parse df i (parsed_dates_with_indices ?st) (date_value (df ! i)))
             = (case adopted_year (accepted_year_above ?st) (next_row_year parse df i) of
                  None \<Rightarrow> None
                | Some y \<Rightarrow> replace_year dp y)"
    by (simp only: resolve_date_suspicious[OF assms] year_choice_adopted year_below_next
          year_above_accepted[OF recorded_state_before])
  from plan_step_dated[OF nb, where parse = parse and style = style and st = ?st]
  show ?thesis
    unfolding state_before_Suc r
    by (simp add: replace_year_alt split: option.splits if_splits)
qed

lemma replace_year_valid:
  "day_of dp \<le> days_in_month y (month_of dp) \<Longrightarrow>
   replace_year dp y = Some (y, month_of dp, day_of dp)"
  by (simp add: replace_year_def)

lemma year_below_Some_iff:
  "year_below parse df i = Some y \<longleftrightarrow>
     i + 1 < length df \<and>
     (\<exists>nd. parse_cell parse (date_value (df ! (i + 1))) = Some nd \<and> year_of nd = y \<and>
           2000 \<le> y \<and> y \<le> 2100)"
  by (auto simp: year_below_def split: option.splits)

lemma plan_step_dates:
  assumes "\<not> is_blank_plan_row (df ! i)" and "date_value (df ! i) \<noteq> DBlank"
  shows "map p_date (result_list (plan_step parse style df st i)) =
           map p_date (result_list st) @
           (case fst (resolve_date parse df i (parsed_dates_with_indices st) (date_value (df ! i))) of
              None \<Rightarrow> []
            | Some d \<Rightarrow> [strftime_dby d])"
    and "skipped_rows (plan_step parse style df st i) =
           skipped_rows st @
           (case fst (resolve_date parse df i (parsed_dates_with_indices st) (date_value (df ! i))) of
              None \<Rightarrow> [i + 2]
            | Some d \<Rightarrow> [])"
  using assms
  by (auto simp: plan_step_def Let_def split: date_cell.splits option.splits prod.splits)


lemma not_blank_dated_plan_row: "\<not> is_blank_plan_row (dated_plan_row dc c)"
  by (simp add: is_blank_plan_row_def dated_plan_row_def)

lemma repair_sheet_example:
  assumes p1: "parse ''16/Sep/0202'' = Some (202, 9, 16)"
      and p2: "parse ''17/Sep/2025'' = Some (2025, 9, 17)"
      and p3: "parse ''18/Sep/2025'' = Some (2025, 9, 18)"
  shows "map p_date (get_row_wise_data_from_plan parse repair_sheet style)
           = [''16/Sep/25'', ''17/Sep/25'', ''18/Sep/25'']"
    and "printed (plan_ingest parse repair_sheet style)
           = [Suspicious_Year 2 (202, 9, 16), Auto_Corrected 2 (2025, 9, 16) Row_Below]"
proof -
  have idx: "[0..<length repair_sheet] = [0, 1, 2]"
    by (simp add: repair_sheet_def upt_rec)
  have s1: "strftime_dby (2025, 9, 16) = ''16/Sep/25''"
    and s2: "strftime_dby (2025, 9, 17) = ''17/Sep/25''"
    and s3: "strftime_dby (2025, 9, 18) = ''18/Sep/25''"
    by code_simp+
  have r: "replace_year (202, 9, 16) 2025 = Some (2025, 9, 16)" by code_simp
  have n0: "repair_sheet ! 0 = dated_plan_row (DText ''16/Sep/0202'') (QNum 10)"
    and n1: "repair_sheet ! Suc 0 = dated_plan_row (DText ''17/Sep/2025'') (QNum 10)"
    and n2: "repair_sheet ! 2 = dated_plan_row (DText ''18/Sep/2025'') (QNum 10)"
    and len: "length repair_sheet = 3"
    by (simp_all add: repair_sheet_def)
  have dv: "date_value (dated_plan_row dc c) = dc" for dc c
    by (simp add: dated_plan_row_def)
  have yb0: "year_below parse repair_sheet 0 = Some 2025"
    by (simp add: year_below_def len n1 dv p2 year_of_def)
  have d0: "resolve_date parse repair_sheet 0 [] (DText ''16/Sep/0202'')
              = (Some (2025, 9, 16),
                 [Suspicious_Year 2 (202, 9, 16), Auto_Corrected 2 (2025, 9, 16) Row_Below])"
    by (simp add: resolve_date_def p1 year_of_def year_above_def yb0 r year_change_def)
  have d1: "resolve_date parse repair_sheet (Suc 0) [(0, (2025, 9, 16))] (DText ''17/Sep/2025'')
              = (Some (2025, 9, 17), [])"
    by (simp add: resolve_date_def p2 year_of_def year_change_def)
  have d2: "resolve_date parse repair_sheet 2 [(0, (2025, 9, 16)), (Suc 0, (2025, 9, 17))]
              (DText ''18/Sep/2025'') = (Some (2025, 9, 18), [])"
    by (simp add: resolve_date_def p3 year_of_def year_change_def)
  have q: "snd (snd (plan_quantities n (all_cells (QNum 10)))) = []" for n
    by (simp add: plan_quantities_def all_cells_def)
  have qc: "quantity_cells (dated_plan_row dc c) = all_cells c" for dc c
    by (simp add: dated_plan_row_def)
  let ?st1 = "plan_step parse style repair_sheet empty_plan_state 0"
  have st1: "map p_date (result_list ?st1) = [''16/Sep/25'']"
            "printed ?st1 = [Suspicious_Year 2 (202, 9, 16), Auto_Corrected 2 (2025, 9, 16) Row_Below]"
            "parsed_dates_with_indices ?st1 = [(0, (2025, 9, 16))]"
    by (simp_all add: plan_step_def n0 not_blank_dated_plan_row dv d0 s1 q qc empty_plan_state_def
          Let_def)
  let ?st2 = "plan_step parse style repair_sheet ?st1 (Suc 0)"
  have st2: "map p_date (result_list ?st2) = [''16/Sep/25'', ''17/Sep/25'']"
            "printed ?st2 = [Suspicious_Year 2 (202, 9, 16), Auto_Corrected 2 (2025, 9, 16) Row_Below]"
            "parsed_dates_with_indices ?st2 = [(0, (2025, 9, 16)), (Suc 0, (2025, 9, 17))]"
    by (simp_all add: plan_step_def[of _ _ _ ?st1] n1 not_blank_dated_plan_row dv d1 s2 q qc st1
          Let_def)
  let ?st3 = "plan_step parse style repair_sheet ?st2 2"
  have st3: "map p_date (result_list ?st3) = [''16/Sep/25'', ''17/Sep/25'', ''18/Sep/25'']"
            "printed ?st3 = [Suspicious_Year 2 (202, 9, 16), Auto_Corrected 2 (2025, 9, 16) Row_Below]"
    by (simp_all add: plan_step_def[of _ _ _ ?st2] n2 not_blank_dated_plan_row dv d2 s3 q qc st2
          Let_def)
  have fin: "plan_ingest parse repair_sheet style = ?st3"
    by (simp add: plan_ingest_def idx)
  show "map p_date (get_row_wise_data_from_plan parse repair_sheet style)
           = [''16/Sep/25'', ''17/Sep/25'', ''18/Sep/25'']"
    by (simp only: get_row_wise_data_from_plan_def fin st3)
  show "printed (plan_ingest parse repair_sheet style)
           = [Suspicious_Year 2 (202, 9, 16), Auto_Corrected 2 (2025, 9, 16) Row_Below]"
    by (simp only: fin st3)
qed


text \<open>
  Claim C5, as the code has it. The list \<open>parsed_dates_with_indices\<close> holds the accepted
  rows in order, so its last entry is the most recently accepted row. Take a row of the
  sheet whose date parses to a year outside 2020 to 2050. The year of the most recently
  accepted row is available if a row was accepted before; the year of the next row is
  available only if that row exists, its date parses and the year is between 2000 and 2100.
  If both are available and agree, or exactly one is available, that year is adopted: the
  row is accepted with its day and month in that year, provided the month has the day in
  that year, and is dropped otherwise. If neither is available, or both are and differ, the
  row is dropped. The function returns the rows accepted when the loop has passed every
  row. For the three rows dated \<open>16/Sep/0202\<close>, \<open>17/Sep/2025\<close> and \<open>18/Sep/2025\<close>, with
  a parser that reads these texts as the dates they show, all three rows are accepted and
  the first has its year repaired to 2025 from the row below.
\<close>

theorem year_repair_rule:
  "map (\<lambda>jd. (fst jd + 2, strftime_dby (snd jd)))
       (parsed_dates_with_indices (state_before parse style df i))
     = map (\<lambda>r. (p_source_row r, p_date r)) (result_list (state_before parse style df i)) \<and>
   (i < length df \<and> parse_cell parse (date_value (df ! i)) = Some dp \<and> suspicious dp \<longrightarrow>
      (case adopted_year (accepted_year_above (state_before parse style df i))
              (next_row_year parse df i) of
         None \<Rightarrow>
           row_dropped (state_before parse style df i) (state_before parse style df (Suc i)) i
       | Some y \<Rightarrow>
           if day_of dp \<le> days_in_month y (month_of dp)
           then row_accepted (state_before parse style df i) (state_before parse style df (Suc i)) i
                  (y, month_of dp, day_of dp)
           else row_dropped (state_before parse style df i) (state_before parse style df (Suc i))
                  i)) \<and>
   get_row_wise_data_from_plan parse df style = result_list (state_before parse style df (length df)) \<and>
   (parse ''16/Sep/0202'' = Some (202, 9, 16) \<and> parse ''17/Sep/2025'' = Some (2025, 9, 17) \<and>
    parse ''18/Sep/2025'' = Some (2025, 9, 18) \<longrightarrow>
      map p_date (get_row_wise_data_from_plan parse repair_sheet style)
        = [''16/Sep/25'', ''17/Sep/25'', ''18/Sep/25''] \<and>
      printed (plan_ingest parse repair_sheet style)
        = [Suspicious_Year 2 (202, 9, 16), Auto_Corrected 2 (2025, 9, 16) Row_Below])"
proof -
  have a: "map (\<lambda>jd. (fst jd + 2, strftime_dby (snd jd)))
       (parsed_dates_with_indices (state_before parse style df i))
     = map (\<lambda>r. (p_source_row r, p_date r)) (result_list (state_before parse style df i))"
    using recorded_state_before[of parse style df i] by (simp only: accepted_rows_recorded_def)
  have c: "get_row_wise_data_from_plan parse df style
             = result_list (state_before parse style df (length df))"
    by (simp only: get_row_wise_data_from_plan_def plan_ingest_state_before)
  from a c suspicious_row_outcome[of parse df i dp style] repair_sheet_example[of parse style]
  show ?thesis by blast
qed

text \<open>
  The hypotheses of C5 hold for the third row of \<open>two_year_sheet\<close>: the rows accepted before
  it are of 2024 and of 2025, there is no next row, and the row takes the year 2025 of the
  most recently accepted row.
\<close>

theorem year_repair_rule_witness:
  "map (\<lambda>r. (p_source_row r, p_date r)) (result_list (state_before parse_dmy4 ''A1'' two_year_sheet 2))
     = [(2, ''30/Dec/24''), (3, ''02/Jan/25'')] \<and>
   parsed_dates_with_indices (state_before parse_dmy4 ''A1'' two_year_sheet 2)
     = [(0, (2024, 12, 30)), (1, (2025, 1, 2))] \<and>
   parse_cell parse_dmy4 (date_value (two_year_sheet ! 2)) = Some (202, 9, 16) \<and>
   accepted_year_above (state_before parse_dmy4 ''A1'' two_year_sheet 2) = Some 2025 \<and>
   next_row_year parse_dmy4 two_year_sheet 2 = None \<and>
   row_accepted (state_before parse_dmy4 ''A1'' two_year_sheet 2)
     (state_before parse_dmy4 ''A1'' two_year_sheet (Suc 2)) 2 (2025, 9, 16) \<and>
   map p_date (get_row_wise_data_from_plan parse_dmy4 two_year_sheet ''A1'')
     = [''30/Dec/24'', ''02/Jan/25'', ''16/Sep/25''] \<and>
   map p_date (get_row_wise_data_from_plan parse_dmy4 repair_sheet ''A1'')
     = [''16/Sep/25'', ''17/Sep/25'', ''18/Sep/25'']"
proof -
  have p: "parse_dmy4 ''16/Sep/0202'' = Some (202, 9, 16) \<and>
           parse_dmy4 ''17/Sep/2025'' = Some (2025, 9, 17) \<and>
           parse_dmy4 ''18/Sep/2025'' = Some (2025, 9, 18)"
    by code_simp
  have h: "2 < length two_year_sheet \<and>
           parse_cell parse_dmy4 (date_value (two_year_sheet ! 2)) = Some (202, 9, 16) \<and>
           suspicious (202, 9, 16)"
    by code_simp
  have rows: "map (\<lambda>r. (p_source_row r, p_date r))
                (result_list (state_before parse_dmy4 ''A1'' two_year_sheet 2))
              = [(2, ''30/Dec/24''), (3, ''02/Jan/25'')]"
    by code_simp
  have pd: "parsed_dates_with_indices (state_before parse_dmy4 ''A1'' two_year_sheet 2)
              = [(0, (2024, 12, 30)), (1, (2025, 1, 2))]"
    by code_simp
  have ya: "accepted_year_above (state_before parse_dmy4 ''A1'' two_year_sheet 2) = Some 2025"
    by code_simp
  have yb: "next_row_year parse_dmy4 two_year_sheet 2 = None" by code_simp
  have ad: "adopted_year (Some 2025) None = Some 2025" by code_simp
  have m: "day_of (202, 9, 16) \<le> days_in_month 2025 (month_of (202, 9, 16)) \<and>
           (2025 :: int, month_of (202, 9, 16), day_of (202, 9, 16)) = (2025, 9, 16)"
    by code_simp
  have all: "map p_date (get_row_wise_data_from_plan parse_dmy4 two_year_sheet ''A1'')
     = [''30/Dec/24'', ''02/Jan/25'', ''16/Sep/25'']"
    by code_simp
  note t = year_repair_rule[of parse_dmy4 "''A1''" two_year_sheet 2 "(202, 9, 16)"]
  from t[THEN conjunct2, THEN conjunct1, THEN mp, OF h]
  have acc: "row_accepted (state_before parse_dmy4 ''A1'' two_year_sheet 2)
     (state_before parse_dmy4 ''A1'' two_year_sheet (Suc 2)) 2 (2025, 9, 16)"
    by (simp add: ya yb ad m)
  from year_repair_rule[of parse_dmy4 "''A1''" two_year_sheet 2 "(202, 9, 16)",
      THEN conjunct2, THEN conjunct2, THEN conjunct2, THEN mp, OF p]
  have ex: "map p_date (get_row_wise_data_from_plan parse_dmy4 repair_sheet ''A1'')
     = [''16/Sep/25'', ''17/Sep/25'', ''18/Sep/25'']"
    by (rule conjunct1)
  from rows pd h ya yb acc all ex show ?thesis by blast
qed

text \<open>
  Claim C5 as stated fails: in \<open>disagreeing_sheet\<close> the row dated \<open>16/Sep/0202\<close> stands
  between an accepted row of 2025 and a row whose date parses to the year 1999. The two
  neighbouring years disagree, yet the row is not dropped: 1999 is outside 2000 to 2100
  and does not count, so the year 2025 of the row above is adopted.
\<close>

theorem year_repaired_against_disagreeing_next_row:
  "parse_dmy4 ''17/Sep/1999'' = Some (1999, 9, 17) \<and>
   year_above [(0, (2025, 9, 15))] = Some 2025 \<and>
   year_below parse_dmy4 disagreeing_sheet 1 = None \<and>
   fst (resolve_date parse_dmy4 disagreeing_sheet 1 [(0, (2025, 9, 15))] (DText ''16/Sep/0202''))
     = Some (2025, 9, 16) \<and>
   map p_date (get_row_wise_data_from_plan parse_dmy4 disagreeing_sheet ''A1'')
     = [''15/Sep/25'', ''16/Sep/25'', ''17/Sep/25'']"
  by code_simp

text \<open>C8 at the two example sheets with blank quantity cells.\<close>

theorem blank_quantity_is_silent_zero_witness:
  "plan_ingest (\<lambda>s. None) (map fill_blank_plan_row blank_quantity_sheet) ''A1''
     = plan_ingest (\<lambda>s. None) blank_quantity_sheet ''A1'' \<and>
   map planned (result_list (plan_ingest (\<lambda>s. None) blank_quantity_sheet ''A1'')) = [q_zero] \<and>
   map actual (get_row_wise_data_from_daily_prod (\<lambda>s. Some (2025, 9, 16))
                 [blank_quantity_prod_sheet]) = [q_zero] \<and>
   quantity_warnings (prod_ingest (\<lambda>s. Some (2025, 9, 16)) [blank_quantity_prod_sheet]) = []"
proof -
  have e: "map planned (result_list (plan_ingest (\<lambda>s. None) blank_quantity_sheet ''A1'')) = [q_zero]"
    by code_simp
  have a: "map actual (get_row_wise_data_from_daily_prod (\<lambda>s. Some (2025, 9, 16))
                 [blank_quantity_prod_sheet]) = [q_zero] \<and>
   quantity_warnings (prod_ingest (\<lambda>s. Some (2025, 9, 16)) [blank_quantity_prod_sheet]) = []"
    by code_simp
  from blank_quantity_is_silent_zero[of Cutting 2 "''s''" "''H''" "\<lambda>s. None" blank_quantity_sheet
      "''A1''" "\<lambda>s. None" "[]", THEN conjunct2, THEN conjunct2, THEN conjunct1] e a
  show ?thesis by blast
qed

text \<open>
  Outside the rule above: when the month has no such day in the adopted year, \<open>replace\<close>
  raises and the row is skipped as a date that cannot be parsed. The row of 29 February
  204 below a row of 2025 is dropped in this way.
\<close>

lemma leap_day_row_is_dropped:
  "map p_date (get_row_wise_data_from_plan parse_dmy4 leap_day_sheet ''A1'') = [''15/Sep/25''] \<and>
   plan_diagnostics parse_dmy4 leap_day_sheet ''A1''
     = ([Suspicious_Year 3 (204, 2, 29), Unparseable_Date 3], [], [], [3])"
  by code_simp

end
